theory Spec2Isabelle
  imports Complex_Main
begin

section \<open>Rate limiter (SecurityUtils.checkRateLimit, resetRateLimit)\<close>

text \<open>
  The limiter keeps one record per key in a process-local map. Times are the values of
  \<^verbatim>\<open>Date.now()\<close>, in milliseconds. The record read from the map is the stored
  object itself, so the lazy window reset is visible in the map even when the call is
  then denied; a record made up for an unknown key is stored only by an allowed call.
\<close>

record rate_record =
  attempts :: int
  resetTime :: int

record rate_result =
  allowed :: bool
  remaining :: int
  result_resetTime :: int
  retryAfter :: int

type_synonym rate_store = "string \<rightharpoonup> rate_record"

definition ceil_div :: "int \<Rightarrow> int \<Rightarrow> int" where
  \<comment> \<open>\<^verbatim>\<open>Math.ceil(a / b)\<close> on integers, for positive \<open>b\<close>\<close>
  "ceil_div a b = - ((- a) div b)"

definition checkRateLimit ::
  "rate_store \<Rightarrow> string \<Rightarrow> int \<Rightarrow> int \<Rightarrow> int \<Rightarrow> rate_result \<times> rate_store" where
  "checkRateLimit store key maxAttempts windowMs now =
     (let fresh = \<lparr>attempts = 0, resetTime = now + windowMs\<rparr>;
          record0 = (case store key of Some r \<Rightarrow> r | None \<Rightarrow> fresh);
          record1 = (if now > resetTime record0 then fresh else record0);
          store1 = (case store key of Some r \<Rightarrow> store(key \<mapsto> record1) | None \<Rightarrow> store)
      in if attempts record1 \<ge> maxAttempts
         then (\<lparr>allowed = False, remaining = 0, result_resetTime = resetTime record1,
                retryAfter = ceil_div (resetTime record1 - now) 1000\<rparr>, store1)
         else (let record2 = record1\<lparr>attempts := attempts record1 + 1\<rparr>
               in (\<lparr>allowed = True, remaining = maxAttempts - attempts record2,
                    result_resetTime = resetTime record2, retryAfter = 0\<rparr>,
                   store(key \<mapsto> record2))))"

definition resetRateLimit :: "rate_store \<Rightarrow> string \<Rightarrow> rate_store" where
  "resetRateLimit store key = store(key := None)"

text \<open>A run of consecutive calls for one key, at the given times, threading the map.\<close>

fun checkRateLimit_calls ::
  "rate_store \<Rightarrow> string \<Rightarrow> int \<Rightarrow> int \<Rightarrow> int list \<Rightarrow> rate_result list \<times> rate_store" where
  "checkRateLimit_calls store key maxAttempts windowMs [] = ([], store)"
| "checkRateLimit_calls store key maxAttempts windowMs (now # later) =
     (case checkRateLimit store key maxAttempts windowMs now of
        (r, store') \<Rightarrow>
          (case checkRateLimit_calls store' key maxAttempts windowMs later of
             (rs, store'') \<Rightarrow> (r # rs, store'')))"

section \<open>JavaScript strings\<close>

text \<open>
  A JavaScript string is modelled as a \<open>string\<close>: the list of its UTF-16 code units,
  restricted to code units below 256. \<open>length\<close> is the \<^verbatim>\<open>.length\<close> of the source.
\<close>

definition code_unit :: "char \<Rightarrow> nat" where
  "code_unit c = of_char c"

definition is_lower :: "char \<Rightarrow> bool" where
  \<comment> \<open>the class \<^verbatim>\<open>[a-z]\<close>\<close>
  "is_lower c = (97 \<le> code_unit c \<and> code_unit c \<le> 122)"

definition is_upper :: "char \<Rightarrow> bool" where
  \<comment> \<open>the class \<^verbatim>\<open>[A-Z]\<close>\<close>
  "is_upper c = (65 \<le> code_unit c \<and> code_unit c \<le> 90)"

definition is_digit :: "char \<Rightarrow> bool" where
  \<comment> \<open>the class \<^verbatim>\<open>\d\<close>, that is \<^verbatim>\<open>[0-9]\<close>\<close>
  "is_digit c = (48 \<le> code_unit c \<and> code_unit c \<le> 57)"

definition is_space :: "char \<Rightarrow> bool" where
  \<comment> \<open>white space and line terminators (\<^verbatim>\<open>\s\<close>, and what \<^verbatim>\<open>trim\<close> and
      \<^verbatim>\<open>parseInt\<close> skip): tab, line feed, vertical tab, form feed, carriage return,
      space, no-break space\<close>
  "is_space c = (code_unit c \<in> {9, 10, 11, 12, 13, 32, 160})"

definition line_terminator :: "char \<Rightarrow> bool" where
  \<comment> \<open>the characters a pattern's dot does not match: line feed and carriage return
      (U+2028 and U+2029 lie outside the modelled code units)\<close>
  "line_terminator c = (code_unit c \<in> {10, 13})"

definition dot_matches :: "char \<Rightarrow> bool" where
  \<comment> \<open>what \<^verbatim>\<open>.\<close> matches in a pattern without the flag \<^verbatim>\<open>s\<close>\<close>
  "dot_matches c = (\<not> line_terminator c)"

definition toLowerCase_char :: "char \<Rightarrow> char" where
  \<comment> \<open>on the letters A-Z and, in Latin-1, U+00C0 to U+00DE except the multiplication sign\<close>
  "toLowerCase_char c =
     (if is_upper c \<or> (192 \<le> code_unit c \<and> code_unit c \<le> 222 \<and> code_unit c \<noteq> 215)
      then char_of (code_unit c + 32) else c)"

definition toLowerCase :: "string \<Rightarrow> string" where
  "toLowerCase s = map toLowerCase_char s"

definition fold_case :: "char \<Rightarrow> char" where
  \<comment> \<open>how a pattern with the flag \<^verbatim>\<open>i\<close> compares characters: only the letters A-Z and a-z
      are identified with each other\<close>
  "fold_case c = (if is_upper c then char_of (code_unit c + 32) else c)"

definition startsWith :: "string \<Rightarrow> string \<Rightarrow> bool" where
  "startsWith s p = (take (length p) s = p)"

fun str_includes :: "string \<Rightarrow> string \<Rightarrow> bool" where
  "str_includes [] sub = (sub = [])"
| "str_includes (c # cs) sub = (startsWith (c # cs) sub \<or> str_includes cs sub)"

definition trim :: "string \<Rightarrow> string" where
  "trim s = rev (dropWhile is_space (rev (dropWhile is_space s)))"

fun split_on :: "char \<Rightarrow> string \<Rightarrow> string list" where
  \<comment> \<open>\<^verbatim>\<open>s.split(sep)\<close> for a one-character separator\<close>
  "split_on sep [] = [[]]"
| "split_on sep (c # cs) =
     (if c = sep then [] # split_on sep cs
      else (case split_on sep cs of
              [] \<Rightarrow> [[c]]
            | part # parts \<Rightarrow> (c # part) # parts))"

section \<open>Password strength (SecurityUtils.validatePasswordStrength)\<close>

record strength_result =
  score :: int
  strength :: string
  feedback :: "string list"

definition special_characters :: "char set" where
  \<comment> \<open>the class \<^verbatim>\<open>[!@#$%^&*(),.?":{}|<>]\<close>\<close>
  "special_characters = set (''!@#$%^&*(),.?'' @ [CHR 0x22] @ '':{}|<>'')"

fun repeated_characters :: "string \<Rightarrow> bool" where
  \<comment> \<open>the pattern \<^verbatim>\<open>/(.)\1{2,}/\<close>: a character the dot matches, then itself twice more\<close>
  "repeated_characters (a # b # c # rest) =
     ((dot_matches a \<and> a = b \<and> b = c) \<or> repeated_characters (b # c # rest))"
| "repeated_characters rest = False"

definition common_sequences :: "string \<Rightarrow> bool" where
  \<comment> \<open>the pattern \<^verbatim>\<open>/123|abc|qwe/i\<close>\<close>
  "common_sequences password =
     (let folded = map fold_case password
      in str_includes folded ''123'' \<or> str_includes folded ''abc'' \<or> str_includes folded ''qwe'')"

text \<open>
  The argument is \<open>None\<close> when the caller passes no password (\<^verbatim>\<open>undefined\<close> or
  \<^verbatim>\<open>null\<close>). The running pair is the local \<^verbatim>\<open>score\<close> and the \<^verbatim>\<open>feedback\<close> array.
\<close>

definition award :: "bool \<Rightarrow> string list \<Rightarrow> int \<times> string list \<Rightarrow> int \<times> string list" where
  \<comment> \<open>\<^verbatim>\<open>if (test) score += 1; else feedback.push(hint)\<close>; no hint is an empty list\<close>
  "award test hint st = (if test then (fst st + 1, snd st) else (fst st, snd st @ hint))"

definition penalise :: "bool \<Rightarrow> string \<Rightarrow> int \<times> string list \<Rightarrow> int \<times> string list" where
  \<comment> \<open>\<^verbatim>\<open>if (test) { score -= 1; feedback.push(hint) }\<close>\<close>
  "penalise test hint st = (if test then (fst st - 1, snd st @ [hint]) else st)"

definition validatePasswordStrength :: "string option \<Rightarrow> strength_result" where
  "validatePasswordStrength input =
     (case input of
        None \<Rightarrow> \<lparr>score = 0, strength = ''very-weak'', feedback = [''Password is required'']\<rparr>
      | Some password \<Rightarrow>
          if password = [] then
            \<lparr>score = 0, strength = ''very-weak'', feedback = [''Password is required'']\<rparr>
          else
            (let st0 = (0, []);
                 st1 = award (length password \<ge> 8) [''Use at least 8 characters''] st0;
                 st2 = award (length password \<ge> 12) [] st1;
                 st3 = award (\<exists>c \<in> set password. is_lower c) [''Include lowercase letters''] st2;
                 st4 = award (\<exists>c \<in> set password. is_upper c) [''Include uppercase letters''] st3;
                 st5 = award (\<exists>c \<in> set password. is_digit c) [''Include numbers''] st4;
                 st6 = award (\<exists>c \<in> set password. c \<in> special_characters)
                         [''Include special characters''] st5;
                 st7 = penalise (repeated_characters password) ''Avoid repeated characters'' st6;
                 st8 = penalise (common_sequences password) ''Avoid common sequences'' st7;
                 total = fst st8;
                 hints = snd st8
             in \<lparr>score = max 0 total,
                 strength = (if total \<le> 2 then ''weak''
                             else if total \<le> 4 then ''medium''
                             else if total \<le> 5 then ''strong''
                             else ''very-strong''),
                 feedback = (if length hints > 0 then hints else [''Password strength is good''])\<rparr>))"

subsection \<open>The score as a sum\<close>

text \<open>
  Notions for stating what the function computes. \<open>identical_run p c\<close>: the character
  \<open>c\<close> stands three times in a row somewhere in \<open>p\<close> (and so starts every longer run).
  \<open>contains_ignoring_case p w\<close>: some stretch of \<open>p\<close> equals \<open>w\<close> up to the case of the
  letters A to Z. \<open>additive_score\<close> is the sum of the function's points and penalties,
  with its character classes; the penalty for a run is taken for a character that the
  dot of the pattern \<^verbatim>\<open>/(.)\1{2,}/\<close> matches.
\<close>

definition identical_run :: "string \<Rightarrow> char \<Rightarrow> bool" where
  "identical_run p c = (\<exists>before after. p = before @ [c, c, c] @ after)"

definition contains_ignoring_case :: "string \<Rightarrow> string \<Rightarrow> bool" where
  "contains_ignoring_case p w =
     (\<exists>before mid after. p = before @ mid @ after \<and> map fold_case mid = map fold_case w)"

definition point :: "bool \<Rightarrow> int" where
  "point b = (if b then 1 else 0)"

definition additive_score :: "string \<Rightarrow> int" where
  "additive_score p =
       point (length p \<ge> 8) + point (length p \<ge> 12)
     + point (\<exists>c \<in> set p. is_lower c) + point (\<exists>c \<in> set p. is_upper c)
     + point (\<exists>c \<in> set p. is_digit c) + point (\<exists>c \<in> set p. c \<in> special_characters)
     - point (\<exists>c. dot_matches c \<and> identical_run p c)
     - point (contains_ignoring_case p ''123'' \<or> contains_ignoring_case p ''abc''
              \<or> contains_ignoring_case p ''qwe'')"

definition bucket :: "int \<Rightarrow> string" where
  "bucket s = (if s \<le> 2 then ''weak'' else if s \<le> 4 then ''medium''
               else if s \<le> 5 then ''strong'' else ''very-strong'')"

definition password_required :: strength_result where
  "password_required =
     \<lparr>score = 0, strength = ''very-weak'', feedback = [''Password is required'']\<rparr>"

subsection \<open>POST /api/auth/check-password-strength\<close>

datatype route_error = MissingFields "string list"

record strength_response =
  reported_strength :: string
  reported_score :: int
  reported_feedback :: "string list"
  isAcceptable :: bool

definition check_password_strength :: "string option \<Rightarrow> route_error + strength_response" where
  \<comment> \<open>the argument is the field \<^verbatim>\<open>password\<close> of the request body\<close>
  "check_password_strength password =
     (if password = None \<or> password = Some [] then Inl (MissingFields [''password''])
      else (let strengthResult = validatePasswordStrength password
            in Inr \<lparr>reported_strength = strength strengthResult,
                    reported_score = score strengthResult,
                    reported_feedback = feedback strengthResult,
                    isAcceptable = (score strengthResult \<ge> 3)\<rparr>))"

section \<open>JavaScript values\<close>

text \<open>
  The values a decoded payload can hold, as JSON gives them: a field is \<open>Undefined\<close> when
  the object does not have it; numbers are rationals (the rounding of doubles is left
  aside); an object is not looked into.
\<close>

datatype js_value =
    Undefined
  | Null
  | Bool bool
  | Num rat
  | Str string
  | Arr "js_value list"
  | Obj

datatype js_number = NaN | Number rat | PosInfinity | NegInfinity

fun truthy :: "js_value \<Rightarrow> bool" where
  \<comment> \<open>what \<^verbatim>\<open>!v\<close> negates\<close>
  "truthy Undefined = False"
| "truthy Null = False"
| "truthy (Bool b) = b"
| "truthy (Num r) = (r \<noteq> 0)"
| "truthy (Str s) = (s \<noteq> [])"
| "truthy (Arr vs) = True"
| "truthy Obj = True"

fun to_number :: "(js_value \<Rightarrow> js_number) \<Rightarrow> js_value \<Rightarrow> js_number" where
  \<comment> \<open>the conversion applied by \<^verbatim>\<open>v - n\<close> and \<^verbatim>\<open>v < n\<close>; how a string, an array or an
      object reads as a number is given by the first argument\<close>
  "to_number reading Undefined = NaN"
| "to_number reading Null = Number 0"
| "to_number reading (Bool b) = Number (if b then 1 else 0)"
| "to_number reading (Num r) = Number r"
| "to_number reading v = reading v"

fun minus_int :: "js_number \<Rightarrow> int \<Rightarrow> js_number" where
  \<comment> \<open>\<^verbatim>\<open>x - n\<close> for an integer \<open>n\<close>\<close>
  "minus_int (Number r) n = Number (r - of_int n)"
| "minus_int x n = x"

fun less_int :: "js_number \<Rightarrow> int \<Rightarrow> bool" where
  \<comment> \<open>\<^verbatim>\<open>x < n\<close> for an integer \<open>n\<close>\<close>
  "less_int (Number r) n = (r < of_int n)"
| "less_int NegInfinity n = True"
| "less_int x n = False"

fun max_zero :: "js_number \<Rightarrow> js_number" where
  \<comment> \<open>\<^verbatim>\<open>Math.max(0, x)\<close>\<close>
  "max_zero (Number r) = Number (max 0 r)"
| "max_zero NegInfinity = Number 0"
| "max_zero x = x"

section \<open>Token codec (JWTUtils over the jsonwebtoken package)\<close>

subsection \<open>Tokens and the package\<close>

text \<open>
  The claims of a token, each as the value the payload has for it. Times are Unix
  seconds. The field \<open>token_type\<close> is the payload's \<^verbatim>\<open>type\<close>.
\<close>

record claims =
  userId :: js_value
  email :: js_value
  token_type :: js_value
  iat :: js_value
  nbf :: js_value
  exp :: js_value
  iss :: js_value
  aud :: js_value

text \<open>
  A decoded token: its payload and the key its signature was computed with (the signature
  verifies under exactly that key).
\<close>

record jws =
  payload :: claims
  signed_with :: string

record js_error =
  err_name :: string
  err_message :: string

text \<open>
  Decoding a string: it is not an encoded token, or parsing a segment throws, or it
  decodes.
\<close>

datatype decode_result = NotAToken | Throws js_error | Decoded jws

text \<open>
  The package \<^verbatim>\<open>jsonwebtoken\<close> is a dependency of the repository, not part of it. Its
  functions \<^verbatim>\<open>sign\<close>, \<^verbatim>\<open>verify\<close> and \<^verbatim>\<open>decode\<close> are modelled below by the checks
  they make and the claims they set; the encoding of a token as a string (base64url, JSON,
  HMAC) is left open. What the functions depend on besides their arguments is collected
  in one record: the compact serialisation, as a decoder from strings and an encoder; how
  the language reads a string, an array or an object as a number; and the configuration
  values \<^verbatim>\<open>config.jwt.secret\<close> and \<^verbatim>\<open>config.jwt.expiresIn\<close> (in seconds).
\<close>

record env =
  jws_decode :: "string \<Rightarrow> decode_result"
  jws_encode :: "jws \<Rightarrow> string"
  number_reading :: "js_value \<Rightarrow> js_number"
  jwt_secret :: string
  jwt_expiresIn :: int

record jwt_options =
  expiresIn :: "int option"
  issuer :: "string option"
  audience :: "string option"

definition no_options :: jwt_options where
  "no_options = \<lparr>expiresIn = None, issuer = None, audience = None\<rparr>"

definition spread :: "jwt_options \<Rightarrow> jwt_options \<Rightarrow> jwt_options" where
  \<comment> \<open>\<^verbatim>\<open>{ ...defaultOptions, ...options }\<close>\<close>
  "spread defaultOptions options =
     \<lparr>expiresIn = (case expiresIn options of Some v \<Rightarrow> Some v | None \<Rightarrow> expiresIn defaultOptions),
      issuer = (case issuer options of Some v \<Rightarrow> Some v | None \<Rightarrow> issuer defaultOptions),
      audience = (case audience options of Some v \<Rightarrow> Some v | None \<Rightarrow> audience defaultOptions)\<rparr>"

definition unix_time :: "int \<Rightarrow> int" where
  \<comment> \<open>\<^verbatim>\<open>Math.floor(Date.now() / 1000)\<close>; the argument is \<^verbatim>\<open>Date.now()\<close>\<close>
  "unix_time now = now div 1000"

definition three_segments :: "string \<Rightarrow> bool" where
  \<comment> \<open>\<^verbatim>\<open>token.split('.').length === 3\<close>\<close>
  "three_segments token = (length (split_on (CHR ''.'') token) = 3)"

text \<open>
  The package's \<^verbatim>\<open>jwt.decode(token, { complete: true })\<close>: \<^verbatim>\<open>null\<close> unless the string
  has the shape of a token and its segments decode; parsing a segment may throw.
\<close>

definition jwt_decode :: "env \<Rightarrow> string \<Rightarrow> decode_result" where
  "jwt_decode E token = (if three_segments token then jws_decode E token else NotAToken)"

definition jwt_error :: "string \<Rightarrow> js_error" where
  "jwt_error m = \<lparr>err_name = ''JsonWebTokenError'', err_message = m\<rparr>"

fun check_nbf :: "js_value \<Rightarrow> int \<Rightarrow> js_error option" where
  "check_nbf Undefined clockTimestamp = None"
| "check_nbf (Num n) clockTimestamp =
     (if n > of_int clockTimestamp
      then Some \<lparr>err_name = ''NotBeforeError'', err_message = ''jwt not active''\<rparr> else None)"
| "check_nbf v clockTimestamp = Some (jwt_error ''invalid nbf value'')"

fun check_exp :: "js_value \<Rightarrow> int \<Rightarrow> js_error option" where
  "check_exp Undefined clockTimestamp = None"
| "check_exp (Num e) clockTimestamp =
     (if of_int clockTimestamp \<ge> e
      then Some \<lparr>err_name = ''TokenExpiredError'', err_message = ''jwt expired''\<rparr> else None)"
| "check_exp v clockTimestamp = Some (jwt_error ''invalid exp value'')"

definition check_audience :: "string option \<Rightarrow> js_value \<Rightarrow> js_error option" where
  \<comment> \<open>the payload's audience, or one of them when it is an array, is the expected one\<close>
  "check_audience expected v =
     (case expected of
        None \<Rightarrow> None
      | Some a \<Rightarrow>
          if v = Str a \<or> (case v of Arr vs \<Rightarrow> Str a \<in> set vs | _ \<Rightarrow> False) then None
          else Some (jwt_error (''jwt audience invalid. expected: '' @ a)))"

definition check_issuer :: "string option \<Rightarrow> js_value \<Rightarrow> js_error option" where
  "check_issuer expected v =
     (case expected of
        None \<Rightarrow> None
      | Some i \<Rightarrow>
          if v = Str i then None else Some (jwt_error (''jwt issuer invalid. expected: '' @ i)))"

fun first_error :: "js_error option list \<Rightarrow> js_error option" where
  \<comment> \<open>the checks run in order and the first failure is thrown\<close>
  "first_error [] = None"
| "first_error (None # checks) = first_error checks"
| "first_error (Some e # checks) = Some e"

text \<open>
  The package's \<^verbatim>\<open>jwt.verify(token, secret, options)\<close>, with the order of its checks:
  shape, decoding (an error thrown there is passed on), signature, not-before, expiry
  (\<^verbatim>\<open>clockTimestamp >= payload.exp\<close>), audience, issuer.
\<close>

definition jwt_verify :: "env \<Rightarrow> string \<Rightarrow> string \<Rightarrow> jwt_options \<Rightarrow> int \<Rightarrow> js_error + claims" where
  "jwt_verify E token secret options now =
     (if token = [] then Inl (jwt_error ''jwt must be provided'')
      else if \<not> three_segments token then Inl (jwt_error ''jwt malformed'')
      else
        (case jws_decode E token of
           NotAToken \<Rightarrow> Inl (jwt_error ''invalid token'')
         | Throws error \<Rightarrow> Inl error
         | Decoded j \<Rightarrow>
             (let c = payload j; clockTimestamp = unix_time now in
              if signed_with j \<noteq> secret then Inl (jwt_error ''invalid signature'')
              else
                (case first_error
                        [check_nbf (nbf c) clockTimestamp, check_exp (exp c) clockTimestamp,
                         check_audience (audience options) (aud c),
                         check_issuer (issuer options) (iss c)] of
                   Some error \<Rightarrow> Inl error
                 | None \<Rightarrow> Inr c))))"

text \<open>
  The package's \<^verbatim>\<open>jwt.sign(payload, secret, options)\<close>: it refuses an empty secret, a
  time claim that is not a number and an option whose claim the payload already has,
  stamps \<^verbatim>\<open>iat\<close> (unless given), sets \<^verbatim>\<open>exp = iat + expiresIn\<close>, \<^verbatim>\<open>aud\<close> and \<^verbatim>\<open>iss\<close>,
  and signs with the secret.
\<close>

fun bad_time :: "js_value \<Rightarrow> bool" where
  "bad_time Undefined = False"
| "bad_time (Num r) = False"
| "bad_time v = True"

fun number_or :: "js_value \<Rightarrow> rat \<Rightarrow> rat" where
  \<comment> \<open>\<^verbatim>\<open>v || d\<close> for a value that is a number or absent\<close>
  "number_or (Num r) d = (if r = 0 then d else r)"
| "number_or v d = d"

definition plain_error :: "string \<Rightarrow> js_error" where
  "plain_error m = \<lparr>err_name = ''Error'', err_message = m\<rparr>"

definition jwt_sign :: "env \<Rightarrow> claims \<Rightarrow> string \<Rightarrow> jwt_options \<Rightarrow> int \<Rightarrow> js_error + string" where
  "jwt_sign E p secret options now =
     (if secret = [] then Inl (plain_error ''secretOrPrivateKey must have a value'')
      else if bad_time (iat p) \<or> bad_time (exp p) \<or> bad_time (nbf p) then
        Inl (plain_error ''should be a number of seconds'')
      else if exp p \<noteq> Undefined \<and> expiresIn options \<noteq> None then
        Inl (plain_error ''Bad options.expiresIn option'')
      else if aud p \<noteq> Undefined \<and> audience options \<noteq> None then
        Inl (plain_error ''Bad options.audience option'')
      else if iss p \<noteq> Undefined \<and> issuer options \<noteq> None then
        Inl (plain_error ''Bad options.issuer option'')
      else
        (let timestamp = number_or (iat p) (of_int (unix_time now));
             signed = p\<lparr>iat := Num timestamp,
                        exp := (case expiresIn options of
                                  Some ttl \<Rightarrow> Num (timestamp + of_int ttl) | None \<Rightarrow> exp p),
                        aud := (case audience options of Some a \<Rightarrow> Str a | None \<Rightarrow> aud p),
                        iss := (case issuer options of Some i \<Rightarrow> Str i | None \<Rightarrow> iss p)\<rparr>
         in Inr (jws_encode E \<lparr>payload = signed, signed_with = secret\<rparr>)))"

subsection \<open>JWTUtils\<close>

text \<open>An error thrown by these functions is its message, on the left of the result.\<close>

definition strip_bearer :: "string \<Rightarrow> string" where
  \<comment> \<open>\<^verbatim>\<open>token.replace(/^Bearer\s+/, '')\<close>\<close>
  "strip_bearer token =
     (if startsWith token ''Bearer'' \<and> (\<exists>c \<in> set (take 1 (drop 6 token)). is_space c)
      then dropWhile is_space (drop 6 token) else token)"

definition default_issuer :: string where
  "default_issuer = ''zeabur-server-demo''"

definition default_audience :: string where
  "default_audience = ''zeabur-server-demo-users''"

definition sign_defaults :: "env \<Rightarrow> jwt_options" where
  \<comment> \<open>the \<^verbatim>\<open>defaultOptions\<close> of \<^verbatim>\<open>generateToken\<close>\<close>
  "sign_defaults E =
     \<lparr>expiresIn = Some (jwt_expiresIn E), issuer = Some default_issuer,
      audience = Some default_audience\<rparr>"

definition verify_defaults :: jwt_options where
  \<comment> \<open>the \<^verbatim>\<open>defaultOptions\<close> of \<^verbatim>\<open>verifyToken\<close>\<close>
  "verify_defaults =
     \<lparr>expiresIn = None, issuer = Some default_issuer, audience = Some default_audience\<rparr>"

definition generateToken :: "env \<Rightarrow> claims \<Rightarrow> jwt_options \<Rightarrow> int \<Rightarrow> string + string" where
  "generateToken E p options now =
     (if \<not> truthy (userId p) then Inl ''Payload must contain userId''
      else
        (let tokenOptions = spread (sign_defaults E) options
         in case jwt_sign E p (jwt_secret E) tokenOptions now of
              Inr token \<Rightarrow> Inr token
            | Inl error \<Rightarrow> Inl (''Token generation failed: '' @ err_message error)))"

definition auth_payload :: "js_value \<Rightarrow> js_value \<Rightarrow> string \<Rightarrow> claims" where
  \<comment> \<open>\<^verbatim>\<open>{ userId: user.id, email: user.email, type: ... }\<close>\<close>
  "auth_payload uid mail kind =
     \<lparr>userId = uid, email = mail, token_type = Str kind,
      iat = Undefined, nbf = Undefined, exp = Undefined, iss = Undefined, aud = Undefined\<rparr>"

definition lacks_id_or_email :: "js_value \<Rightarrow> js_value \<Rightarrow> bool" where
  \<comment> \<open>\<^verbatim>\<open>!user.id || !user.email\<close>\<close>
  "lacks_id_or_email uid mail = (\<not> truthy uid \<or> \<not> truthy mail)"

definition generateAuthToken :: "env \<Rightarrow> js_value \<Rightarrow> js_value \<Rightarrow> int \<Rightarrow> string + string" where
  \<comment> \<open>the user object is given by its \<^verbatim>\<open>id\<close> and \<^verbatim>\<open>email\<close>\<close>
  "generateAuthToken E uid mail now =
     (if lacks_id_or_email uid mail then Inl ''User must have id and email properties''
      else generateToken E (auth_payload uid mail ''auth'') no_options now)"

definition generateRefreshToken :: "env \<Rightarrow> js_value \<Rightarrow> js_value \<Rightarrow> int \<Rightarrow> string + string" where
  "generateRefreshToken E uid mail now =
     (if lacks_id_or_email uid mail then Inl ''User must have id and email properties''
      else generateToken E (auth_payload uid mail ''refresh'')
             (no_options\<lparr>expiresIn := Some (7 * 24 * 60 * 60)\<rparr>) now)"

definition verifyToken :: "env \<Rightarrow> string \<Rightarrow> jwt_options \<Rightarrow> int \<Rightarrow> string + claims" where
  "verifyToken E token options now =
     (if token = [] then Inl ''Token must be a valid string''
      else
        (let cleanToken = strip_bearer token;
             verifyOptions = spread verify_defaults options
         in case jwt_verify E cleanToken (jwt_secret E) verifyOptions now of
              Inr decoded \<Rightarrow> Inr decoded
            | Inl error \<Rightarrow>
                if err_name error = ''TokenExpiredError'' then Inl ''Token has expired''
                else if err_name error = ''JsonWebTokenError'' then Inl ''Invalid token''
                else if err_name error = ''NotBeforeError'' then Inl ''Token not active yet''
                else Inl (''Token verification failed: '' @ err_message error)))"

definition decodeToken :: "env \<Rightarrow> string \<Rightarrow> string + jws option" where
  "decodeToken E token =
     (if token = [] then Inl ''Token must be a valid string''
      else
        (let cleanToken = strip_bearer token
         in case jwt_decode E cleanToken of
              NotAToken \<Rightarrow> Inr None
            | Decoded decoded \<Rightarrow> Inr (Some decoded)
            | Throws error \<Rightarrow> Inl (''Token decode failed: '' @ err_message error)))"

definition isTokenExpired :: "env \<Rightarrow> string \<Rightarrow> int \<Rightarrow> bool" where
  "isTokenExpired E token now =
     (case decodeToken E token of
        Inl error \<Rightarrow> True
      | Inr None \<Rightarrow> True
      | Inr (Some decoded) \<Rightarrow>
          if \<not> truthy (exp (payload decoded)) then True
          else (let currentTime = unix_time now
                in less_int (to_number (number_reading E) (exp (payload decoded))) currentTime))"

definition getTokenRemainingTime :: "env \<Rightarrow> string \<Rightarrow> int \<Rightarrow> js_number" where
  "getTokenRemainingTime E token now =
     (case decodeToken E token of
        Inl error \<Rightarrow> Number 0
      | Inr None \<Rightarrow> Number 0
      | Inr (Some decoded) \<Rightarrow>
          if \<not> truthy (exp (payload decoded)) then Number 0
          else (let currentTime = unix_time now;
                    remainingTime =
                      minus_int (to_number (number_reading E) (exp (payload decoded))) currentTime
                in max_zero remainingTime))"

definition getUserFromToken :: "env \<Rightarrow> string \<Rightarrow> int \<Rightarrow> claims option" where
  "getUserFromToken E token now =
     (case verifyToken E token no_options now of
        Inr decoded \<Rightarrow> Some decoded
      | Inl error \<Rightarrow> None)"

definition refreshAccessToken :: "env \<Rightarrow> string \<Rightarrow> int \<Rightarrow> string + string" where
  "refreshAccessToken E refreshToken now =
     (let attempt =
        (case verifyToken E refreshToken no_options now of
           Inl error \<Rightarrow> Inl error
         | Inr decoded \<Rightarrow>
             if token_type decoded \<noteq> Str ''refresh'' then Inl ''Invalid refresh token type''
             else generateAuthToken E (userId decoded) (email decoded) now)
      in case attempt of
           Inr token \<Rightarrow> Inr token
         | Inl error \<Rightarrow> Inl (''Token refresh failed: '' @ error))"

definition isValidTokenFormat :: "string \<Rightarrow> bool" where
  "isValidTokenFormat token =
     (if token = [] then False else three_segments (strip_bearer token))"

section \<open>Credential store (the User model over the users table)\<close>

text \<open>
  The table \<^verbatim>\<open>users\<close>: \<^verbatim>\<open>id SERIAL PRIMARY KEY\<close> (a 32-bit integer),
  \<^verbatim>\<open>email VARCHAR(255) UNIQUE NOT NULL\<close>, the password hash and two timestamps. A query
  fails when the database cannot be reached or a parameter is not a value of its
  column's type, and an insert also when it breaks a constraint. The hash is kept as the
  password it was computed from. How the server reads a text as an integer is part of
  the database (\<open>None\<close>: the text is not an integer).
\<close>

datatype password_hash = Bcrypt string

record user =
  user_id :: int
  user_email :: string
  passwordHash :: "password_hash option"
  createdAt :: int
  updatedAt :: int

record database =
  users :: "user list"
  serial :: int
  reachable :: bool
  integer_input :: "string \<Rightarrow> int option"

datatype db_failure =
    ConnectionFailure
  | UniqueViolation
  | ValueTooLong
  | InvalidTextRepresentation
  | NumericValueOutOfRange

datatype create_error = Invalid string | Store db_failure

definition int4 :: "int \<Rightarrow> bool" where
  \<comment> \<open>the values of the type \<^verbatim>\<open>integer\<close>\<close>
  "int4 i = (- 2147483648 \<le> i \<and> i \<le> 2147483647)"

text \<open>
  The integer a query parameter stands for. The driver sends a number as its decimal
  text (a whole number below \<open>10^21\<close> is written with digits only), a string as it is,
  and a boolean, an array or an object as a text that is not an integer.
\<close>

fun integer_parameter :: "(string \<Rightarrow> int option) \<Rightarrow> js_value \<Rightarrow> int option" where
  "integer_parameter reading (Num r) =
     (if of_int \<lfloor>r\<rfloor> = r \<and> \<bar>r\<bar> < 10 ^ 21 then Some \<lfloor>r\<rfloor> else None)"
| "integer_parameter reading (Str s) = reading s"
| "integer_parameter reading v = None"

definition select_by_id :: "database \<Rightarrow> js_value \<Rightarrow> db_failure + user list" where
  \<comment> \<open>\<^verbatim>\<open>SELECT * FROM users WHERE id = $1\<close>\<close>
  "select_by_id db v =
     (if \<not> reachable db then Inl ConnectionFailure
      else
        (case integer_parameter (integer_input db) v of
           None \<Rightarrow> Inl InvalidTextRepresentation
         | Some i \<Rightarrow>
             if int4 i then Inr (filter (\<lambda>row. user_id row = i) (users db))
             else Inl NumericValueOutOfRange))"

definition select_by_email :: "database \<Rightarrow> string \<Rightarrow> db_failure + user list" where
  \<comment> \<open>\<^verbatim>\<open>SELECT * FROM users WHERE email = $1\<close>\<close>
  "select_by_email db e =
     (if reachable db then Inr (filter (\<lambda>row. user_email row = e) (users db))
      else Inl ConnectionFailure)"

definition insert_user :: "database \<Rightarrow> string \<Rightarrow> password_hash \<Rightarrow> int \<Rightarrow> (db_failure + user) \<times> database" where
  \<comment> \<open>\<^verbatim>\<open>INSERT INTO users (email, password_hash) VALUES ($1, $2) RETURNING ...\<close>; the
      sequence advances also when the row is refused\<close>
  "insert_user db e h now =
     (if \<not> reachable db then (Inl ConnectionFailure, db)
      else if length e > 255 then (Inl ValueTooLong, db)
      else
        (let i = serial db + 1;
             row = \<lparr>user_id = i, user_email = e, passwordHash = Some h,
                    createdAt = now, updatedAt = now\<rparr>
         in if e \<in> user_email ` set (users db)
            then (Inl UniqueViolation, db\<lparr>serial := i\<rparr>)
            else (Inr row, db\<lparr>users := users db @ [row], serial := i\<rparr>)))"

definition findById :: "database \<Rightarrow> js_value \<Rightarrow> db_failure + user option" where
  "findById db ident =
     (if \<not> truthy ident then Inr None
      else (case select_by_id db ident of
              Inl failure \<Rightarrow> Inl failure
            | Inr [] \<Rightarrow> Inr None
            | Inr (row # rows) \<Rightarrow> Inr (Some row)))"

definition findByEmail :: "database \<Rightarrow> string option \<Rightarrow> db_failure + user option" where
  "findByEmail db mail =
     (if mail = None \<or> mail = Some [] then Inr None
      else (case select_by_email db (toLowerCase (the mail)) of
              Inl failure \<Rightarrow> Inl failure
            | Inr [] \<Rightarrow> Inr None
            | Inr (row # rows) \<Rightarrow> Inr (Some row)))"

definition plain :: "char \<Rightarrow> bool" where
  \<comment> \<open>the class \<^verbatim>\<open>[^\s@]\<close>\<close>
  "plain c = (\<not> is_space c \<and> c \<noteq> CHR ''@'')"

definition isValidEmail :: "string \<Rightarrow> bool" where
  \<comment> \<open>the pattern \<^verbatim>\<open>/^[^\s@]+@[^\s@]+\.[^\s@]+$/\<close>: plain characters, one at-sign, plain
      characters with a dot that is neither the first nor the last of them\<close>
  "isValidEmail e =
     (let local = takeWhile plain e; rest = dropWhile plain e
      in local \<noteq> [] \<and> take 1 rest = ''@'' \<and> list_all plain (drop 1 rest)
         \<and> CHR ''.'' \<in> set (butlast (drop 2 rest)))"

definition isValidPassword :: "string option \<Rightarrow> bool" where
  "isValidPassword password =
     (case password of None \<Rightarrow> False | Some p \<Rightarrow> p \<noteq> [] \<and> length p \<ge> 6)"

definition create :: "database \<Rightarrow> string option \<Rightarrow> string option \<Rightarrow> int \<Rightarrow> (create_error + user) \<times> database" where
  \<comment> \<open>\<^verbatim>\<open>User.create({ email, password })\<close> at the time \<open>now\<close>\<close>
  "create db mail password now =
     (if mail = None \<or> mail = Some [] \<or> password = None \<or> password = Some [] then
        (Inl (Invalid ''Email and password are required''), db)
      else if \<not> isValidEmail (the mail) then (Inl (Invalid ''Invalid email format''), db)
      else if \<not> isValidPassword password then
        (Inl (Invalid ''Password must be at least 6 characters long''), db)
      else
        (case findByEmail db mail of
           Inl failure \<Rightarrow> (Inl (Store failure), db)
         | Inr (Some existingUser) \<Rightarrow> (Inl (Invalid ''User with this email already exists''), db)
         | Inr None \<Rightarrow>
             (case insert_user db (the mail) (Bcrypt (the password)) now of
                (Inl failure, db') \<Rightarrow> (Inl (Store failure), db')
              | (Inr userRow, db') \<Rightarrow> (Inr (userRow\<lparr>passwordHash := None\<rparr>), db'))))"

section \<open>Authentication middleware\<close>

record response =
  status :: nat
  code :: string
  message :: string

record token_info =
  info_raw :: string
  info_decoded :: claims
  info_userId :: js_value
  info_email :: js_value
  info_iat :: js_value
  info_exp :: js_value

record refresh_info =
  refresh_raw :: string
  refresh_decoded :: claims

text \<open>
  The parts of the request the gates read or set: the \<^verbatim>\<open>Authorization\<close> header, the
  field \<^verbatim>\<open>refreshToken\<close> of the body, the path parameters \<^verbatim>\<open>userId\<close> and \<^verbatim>\<open>id\<close>, and
  the properties \<^verbatim>\<open>user\<close>, \<^verbatim>\<open>token\<close> and \<^verbatim>\<open>refreshToken\<close> attached to the request.
\<close>

record request =
  authorization :: "string option"
  body_refreshToken :: "string option"
  params_userId :: "string option"
  params_id :: "string option"
  req_user :: "user option"
  req_token :: "token_info option"
  req_refreshToken :: "refresh_info option"

text \<open>A gate either sends a response or calls \<^verbatim>\<open>next()\<close> with the request as it left it.\<close>

datatype outcome = Respond response | Next request

definition OK :: nat where "OK = 200"
definition BAD_REQUEST :: nat where "BAD_REQUEST = 400"
definition UNAUTHORIZED :: nat where "UNAUTHORIZED = 401"
definition FORBIDDEN :: nat where "FORBIDDEN = 403"
definition INTERNAL_SERVER_ERROR :: nat where "INTERNAL_SERVER_ERROR = 500"

definition AUTH_TOKEN_MISSING :: string where "AUTH_TOKEN_MISSING = ''AUTH_TOKEN_MISSING''"
definition AUTH_TOKEN_INVALID :: string where "AUTH_TOKEN_INVALID = ''AUTH_TOKEN_INVALID''"
definition AUTH_TOKEN_EXPIRED :: string where "AUTH_TOKEN_EXPIRED = ''AUTH_TOKEN_EXPIRED''"
definition AUTH_CREDENTIALS_INVALID :: string where
  "AUTH_CREDENTIALS_INVALID = ''AUTH_CREDENTIALS_INVALID''"
definition USER_NOT_FOUND :: string where "USER_NOT_FOUND = ''USER_NOT_FOUND''"
definition INTERNAL_ERROR :: string where "INTERNAL_ERROR = ''INTERNAL_ERROR''"

definition reject :: "nat \<Rightarrow> string \<Rightarrow> string \<Rightarrow> outcome" where
  \<comment> \<open>\<^verbatim>\<open>res.status(s).json({ success: false, error: { code, message } })\<close>\<close>
  "reject s c m = Respond \<lparr>status = s, code = c, message = m\<rparr>"

definition extract_token :: "string \<Rightarrow> string" where
  \<comment> \<open>\<^verbatim>\<open>authHeader.startsWith('Bearer ') ? authHeader.slice(7) : authHeader\<close>\<close>
  "extract_token authHeader =
     (if startsWith authHeader ''Bearer '' then drop 7 authHeader else authHeader)"

definition authenticateToken :: "env \<Rightarrow> database \<Rightarrow> request \<Rightarrow> int \<Rightarrow> outcome" where
  "authenticateToken E db req now =
     (case authorization req of
        None \<Rightarrow> reject UNAUTHORIZED AUTH_TOKEN_MISSING ''Authorization header is required''
      | Some authHeader \<Rightarrow>
          if authHeader = [] then
            reject UNAUTHORIZED AUTH_TOKEN_MISSING ''Authorization header is required''
          else
            (let token = extract_token authHeader
             in if token = [] then reject UNAUTHORIZED AUTH_TOKEN_MISSING ''Token is required''
                else if \<not> isValidTokenFormat token then
                  reject UNAUTHORIZED AUTH_TOKEN_INVALID ''Invalid token format''
                else
                  (case verifyToken E token no_options now of
                     Inl error \<Rightarrow>
                       (let isExpired = str_includes error ''expired''
                        in reject UNAUTHORIZED
                             (if isExpired then AUTH_TOKEN_EXPIRED else AUTH_TOKEN_INVALID) error)
                   | Inr decoded \<Rightarrow>
                       if token_type decoded \<noteq> Str ''auth'' then
                         reject UNAUTHORIZED AUTH_TOKEN_INVALID ''Invalid token type''
                       else
                         (case findById db (userId decoded) of
                            Inl failure \<Rightarrow>
                              reject INTERNAL_SERVER_ERROR INTERNAL_ERROR ''Authentication failed''
                          | Inr None \<Rightarrow> reject UNAUTHORIZED USER_NOT_FOUND ''User not found''
                          | Inr (Some user) \<Rightarrow>
                              Next (req\<lparr>req_user := Some user,
                                         req_token := Some \<lparr>info_raw = token, info_decoded = decoded,
                                           info_userId = userId decoded,
                                           info_email = email decoded,
                                           info_iat = iat decoded,
                                           info_exp = exp decoded\<rparr>\<rparr>)))))"

definition validateRefreshToken :: "env \<Rightarrow> database \<Rightarrow> request \<Rightarrow> int \<Rightarrow> outcome" where
  "validateRefreshToken E db req now =
     (case body_refreshToken req of
        None \<Rightarrow> reject BAD_REQUEST AUTH_TOKEN_MISSING ''Refresh token is required''
      | Some refreshToken \<Rightarrow>
          if refreshToken = [] then
            reject BAD_REQUEST AUTH_TOKEN_MISSING ''Refresh token is required''
          else
            (case verifyToken E refreshToken no_options now of
               Inl error \<Rightarrow> reject UNAUTHORIZED AUTH_TOKEN_INVALID ''Invalid refresh token''
             | Inr decoded \<Rightarrow>
                 if token_type decoded \<noteq> Str ''refresh'' then
                   reject UNAUTHORIZED AUTH_TOKEN_INVALID ''Invalid token type''
                 else
                   (case findById db (userId decoded) of
                      Inl failure \<Rightarrow>
                        reject INTERNAL_SERVER_ERROR INTERNAL_ERROR ''Token validation failed''
                    | Inr None \<Rightarrow> reject UNAUTHORIZED USER_NOT_FOUND ''User not found''
                    | Inr (Some user) \<Rightarrow>
                        Next (req\<lparr>req_user := Some user,
                                   req_refreshToken := Some \<lparr>refresh_raw = refreshToken,
                                     refresh_decoded = decoded\<rparr>\<rparr>))))"

subsection \<open>The ownership gate and parseInt\<close>

definition digit_value :: "char \<Rightarrow> nat option" where
  \<comment> \<open>the value of a character as a digit: 0-9, then a-z and A-Z from ten on\<close>
  "digit_value c =
     (if is_digit c then Some (code_unit c - 48)
      else if is_lower c then Some (code_unit c - 97 + 10)
      else if is_upper c then Some (code_unit c - 65 + 10)
      else None)"

definition radix_digit :: "nat \<Rightarrow> char \<Rightarrow> bool" where
  "radix_digit R c = (case digit_value c of Some v \<Rightarrow> v < R | None \<Rightarrow> False)"

definition digits_value :: "nat \<Rightarrow> string \<Rightarrow> nat" where
  "digits_value R Z = foldl (\<lambda>acc c. acc * R + the (digit_value c)) 0 Z"

text \<open>
  \<^verbatim>\<open>parseInt(x)\<close> with no radix: the argument is \<open>None\<close> for \<^verbatim>\<open>undefined\<close> (whose
  string form has no digits), the result is \<open>None\<close> for \<^verbatim>\<open>NaN\<close>. Leading white space is
  skipped, a sign is read, \<^verbatim>\<open>0x\<close> selects base sixteen, and the longest run of digits is
  taken. The result is an exact integer (the source's number is exact up to \<open>2^53\<close>).
\<close>

definition parseInt :: "string option \<Rightarrow> int option" where
  "parseInt input =
     (case input of
        None \<Rightarrow> None
      | Some inputString \<Rightarrow>
          (let S = dropWhile is_space inputString;
               negative = (take 1 S = ''-'');
               S1 = (if take 1 S = ''+'' \<or> take 1 S = ''-'' then drop 1 S else S);
               hex = (take 2 S1 = ''0x'' \<or> take 2 S1 = ''0X'');
               R = (if hex then 16 else 10);
               S2 = (if hex then drop 2 S1 else S1);
               Z = takeWhile (radix_digit R) S2
           in if Z = [] then None
              else Some ((if negative then - 1 else 1) * int (digits_value R Z))))"

definition or_else :: "string option \<Rightarrow> string option \<Rightarrow> string option" where
  \<comment> \<open>\<^verbatim>\<open>a || b\<close> on strings that may be absent: \<open>a\<close> unless it is absent or empty\<close>
  "or_else a b = (if a = None \<or> a = Some [] then b else a)"

definition requireOwnership :: "request \<Rightarrow> outcome" where
  "requireOwnership req =
     (if req_user req = None \<or> req_token req = None then
        reject UNAUTHORIZED AUTH_TOKEN_MISSING ''Authentication required''
      else
        (let requestedUserId =
               parseInt (or_else (params_userId req) (params_id req));
             authenticatedUserId = user_id (the (req_user req))
         in if requestedUserId \<noteq> Some authenticatedUserId then
              reject FORBIDDEN AUTH_CREDENTIALS_INVALID ''Access denied: insufficient permissions''
            else Next req))"

text \<open>
  A path parameter that is not numeric: after leading white space and an optional sign it
  does not go on with a digit.
\<close>

definition non_numeric :: "string \<Rightarrow> bool" where
  "non_numeric s =
     (let S = dropWhile is_space s;
          S1 = (if take 1 S = ''+'' \<or> take 1 S = ''-'' then drop 1 S else S)
      in \<not> (\<exists>c \<in> set (take 1 S1). is_digit c))"

section \<open>Notions used in the statements\<close>

text \<open>
  The type a token string carries in its payload, read without any verification; \<open>None\<close>
  when the string does not decode.
\<close>

definition carried_type :: "env \<Rightarrow> string \<Rightarrow> js_value option" where
  "carried_type E token =
     (case jwt_decode E (strip_bearer token) of
        Decoded j \<Rightarrow> Some (token_type (payload j))
      | NotAToken \<Rightarrow> None
      | Throws error \<Rightarrow> None)"

text \<open>
  The serialisation is faithful on a token: decoding its encoding gives it back, and the
  encoding has three dot-separated segments and does not begin like a \<^verbatim>\<open>Bearer\<close> header.
\<close>

definition faithful_on :: "env \<Rightarrow> jws \<Rightarrow> bool" where
  "faithful_on E j =
     (jws_decode E (jws_encode E j) = Decoded j
      \<and> three_segments (jws_encode E j)
      \<and> strip_bearer (jws_encode E j) = jws_encode E j)"

text \<open>
  The token that signing the payload \<open>p\<close> at the time \<open>now\<close> with a lifetime of \<open>ttl\<close>
  seconds and the default issuer and audience puts together, before it is encoded.
\<close>

definition issued :: "env \<Rightarrow> claims \<Rightarrow> int \<Rightarrow> int \<Rightarrow> jws" where
  "issued E p ttl now =
     \<lparr>payload = p\<lparr>iat := Num (of_int (unix_time now)),
                     exp := Num (of_int (unix_time now + ttl)),
                     aud := Str default_audience, iss := Str default_issuer\<rparr>,
      signed_with = jwt_secret E\<rparr>"

text \<open>
  The store holds lower-case emails only, and no two of them are the same up to letter
  case.
\<close>

definition lower_case_store :: "database \<Rightarrow> bool" where
  "lower_case_store db =
     ((\<forall>row \<in> set (users db). toLowerCase (user_email row) = user_email row)
      \<and> distinct (map (\<lambda>row. toLowerCase (user_email row)) (users db)))"

section \<open>Sample data\<close>

text \<open>
  A request with nothing set, a user, and a small codec that knows six token strings. An
  access token and a refresh token of user 7, both signed with the configured secret and
  expiring at second 2000; an access token with the same payload signed with another key;
  and three more access tokens signed with the configured secret: one of a user with the
  id \<open>2^31\<close>, one expiring at second 2000.5, and one whose \<^verbatim>\<open>exp\<close> is the string
  \<^verbatim>\<open>abc\<close>. That string is the only value of the sample payloads that the language has to
  read as a number, and it reads as \<^verbatim>\<open>NaN\<close>. The sample database reads a text of decimal
  digits as an integer.
\<close>

definition blank_request :: request where
  "blank_request =
     \<lparr>authorization = None, body_refreshToken = None, params_userId = None, params_id = None,
      req_user = None, req_token = None, req_refreshToken = None\<rparr>"

definition sample_claims :: "string \<Rightarrow> claims" where
  "sample_claims kind =
     \<lparr>userId = Num 7, email = Str ''ann@example.com'', token_type = Str kind,
      iat = Num 1000, nbf = Undefined, exp = Num 2000,
      iss = Str ''zeabur-server-demo'', aud = Str ''zeabur-server-demo-users''\<rparr>"

definition sample_user :: user where
  "sample_user =
     \<lparr>user_id = 7, user_email = ''ann@example.com'', passwordHash = Some (Bcrypt ''secret1''),
      createdAt = 900, updatedAt = 900\<rparr>"

definition sample_info :: token_info where
  "sample_info =
     \<lparr>info_raw = ''hdr.auth.sig'', info_decoded = sample_claims ''auth'',
      info_userId = Num 7, info_email = Str ''ann@example.com'',
      info_iat = Num 1000, info_exp = Num 2000\<rparr>"

definition sample_decode :: "string \<Rightarrow> decode_result" where
  "sample_decode t =
     (if t = ''hdr.auth.sig'' then
        Decoded \<lparr>payload = sample_claims ''auth'', signed_with = ''demo-jwt-secret-key''\<rparr>
      else if t = ''hdr.refresh.sig'' then
        Decoded \<lparr>payload = sample_claims ''refresh'', signed_with = ''demo-jwt-secret-key''\<rparr>
      else if t = ''hdr.auth.forged'' then
        Decoded \<lparr>payload = sample_claims ''auth'', signed_with = ''guessed-key''\<rparr>
      else if t = ''hdr.big.sig'' then
        Decoded \<lparr>payload = (sample_claims ''auth'')\<lparr>userId := Num 2147483648\<rparr>,
                 signed_with = ''demo-jwt-secret-key''\<rparr>
      else if t = ''hdr.half.sig'' then
        Decoded \<lparr>payload = (sample_claims ''auth'')\<lparr>exp := Num (4001 / 2)\<rparr>,
                 signed_with = ''demo-jwt-secret-key''\<rparr>
      else if t = ''hdr.text.sig'' then
        Decoded \<lparr>payload = (sample_claims ''auth'')\<lparr>exp := Str ''abc''\<rparr>,
                 signed_with = ''demo-jwt-secret-key''\<rparr>
      else NotAToken)"

definition sample_encode :: "jws \<Rightarrow> string" where
  "sample_encode j =
     (if signed_with j \<noteq> ''demo-jwt-secret-key'' then ''hdr.auth.forged''
      else if token_type (payload j) = Str ''refresh'' then ''hdr.refresh.sig''
      else ''hdr.auth.sig'')"

definition sample_reading :: "js_value \<Rightarrow> js_number" where
  "sample_reading v = NaN"

definition sample_env :: env where
  "sample_env =
     \<lparr>jws_decode = sample_decode, jws_encode = sample_encode, number_reading = sample_reading,
      jwt_secret = ''demo-jwt-secret-key'', jwt_expiresIn = 86400\<rparr>"

definition decimal_digits :: "string \<Rightarrow> int option" where
  "decimal_digits s =
     (if s \<noteq> [] \<and> list_all is_digit s then Some (int (digits_value 10 s)) else None)"

definition empty_database :: database where
  "empty_database =
     \<lparr>users = [], serial = 0, reachable = True, integer_input = decimal_digits\<rparr>"

section \<open>Properties\<close>

subsection \<open>Rate limiter: counting and tie-break\<close>

lemma check_fresh:
  "store key = None \<Longrightarrow> 0 < m \<Longrightarrow>
   checkRateLimit store key m w t =
     (\<lparr>allowed = True, remaining = m - 1, result_resetTime = t + w, retryAfter = 0\<rparr>,
      store(key \<mapsto> \<lparr>attempts = 1, resetTime = t + w\<rparr>))"
  by (simp add: checkRateLimit_def Let_def)

lemma check_counted:
  "store key = Some \<lparr>attempts = a, resetTime = r\<rparr> \<Longrightarrow> t \<le> r \<Longrightarrow> a < m \<Longrightarrow>
   checkRateLimit store key m w t =
     (\<lparr>allowed = True, remaining = m - (a + 1), result_resetTime = r, retryAfter = 0\<rparr>,
      store(key \<mapsto> \<lparr>attempts = a + 1, resetTime = r\<rparr>))"
  by (simp add: checkRateLimit_def Let_def)

lemma check_denied:
  "store key = Some \<lparr>attempts = a, resetTime = r\<rparr> \<Longrightarrow> t \<le> r \<Longrightarrow> m \<le> a \<Longrightarrow>
   checkRateLimit store key m w t =
     (\<lparr>allowed = False, remaining = 0, result_resetTime = r, retryAfter = ceil_div (r - t) 1000\<rparr>,
      store)"
  by (auto simp add: checkRateLimit_def Let_def)

lemma ceil_div_pos: "0 < ceil_div a 1000 \<longleftrightarrow> 0 < a"
  unfolding ceil_div_def by linarith

lemma six_calls:
  assumes "store key = None"
    and "t2 \<le> t1 + w" and "t3 \<le> t1 + w" and "t4 \<le> t1 + w" and "t5 \<le> t1 + w"
    and "t6 \<le> t1 + w"
  shows "checkRateLimit_calls store key 5 w [t1, t2, t3, t4, t5, t6] =
    ([\<lparr>allowed = True, remaining = 4, result_resetTime = t1 + w, retryAfter = 0\<rparr>,
      \<lparr>allowed = True, remaining = 3, result_resetTime = t1 + w, retryAfter = 0\<rparr>,
      \<lparr>allowed = True, remaining = 2, result_resetTime = t1 + w, retryAfter = 0\<rparr>,
      \<lparr>allowed = True, remaining = 1, result_resetTime = t1 + w, retryAfter = 0\<rparr>,
      \<lparr>allowed = True, remaining = 0, result_resetTime = t1 + w, retryAfter = 0\<rparr>,
      \<lparr>allowed = False, remaining = 0, result_resetTime = t1 + w, retryAfter = ceil_div (t1 + w - t6) 1000\<rparr>],
     store(key \<mapsto> \<lparr>attempts = 5, resetTime = t1 + w\<rparr>))"
  using assms by (simp add: check_fresh check_counted check_denied)

text \<open>
  C3. For a key with no record and \<open>maxAttempts = 5\<close>, take six calls of
  \<open>checkRateLimit\<close> within the window opened by the first one, that is, none later
  than \<open>t1 + w\<close> (the window is over only when \<^verbatim>\<open>now > resetTime\<close>). The first five are
  allowed, with \<open>remaining\<close> 4, 3, 2, 1, 0 in that order, and the sixth is denied. The
  denied call reports \<open>retryAfter\<close> as the rest of the window in seconds, rounded up.
  That is greater than 0 as long as the sixth call comes before \<open>t1 + w\<close>, but it is 0
  for a call at the millisecond \<open>t1 + w\<close> itself, which is still denied. After
  \<open>resetRateLimit\<close> the next call, at any time, is allowed with \<open>remaining = 4\<close>.
\<close>

theorem rate_limit_five_allowed_sixth_denied:
  assumes "store key = None"
    and "t2 \<le> t1 + w" and "t3 \<le> t1 + w" and "t4 \<le> t1 + w" and "t5 \<le> t1 + w"
    and "t6 \<le> t1 + w"
  shows "(case checkRateLimit_calls store key 5 w [t1, t2, t3, t4, t5, t6] of
            (rs, store') \<Rightarrow>
              map allowed rs = [True, True, True, True, True, False]
            \<and> map remaining (take 5 rs) = [4, 3, 2, 1, 0]
            \<and> retryAfter (rs ! 5) = ceil_div (t1 + w - t6) 1000
            \<and> (0 < retryAfter (rs ! 5) \<longleftrightarrow> t6 < t1 + w)
            \<and> (t6 = t1 + w \<longrightarrow> retryAfter (rs ! 5) = 0)
            \<and> (case checkRateLimit (resetRateLimit store' key) key 5 w t7 of
                  (r, store'') \<Rightarrow> allowed r \<and> remaining r = 4))"
proof -
  have retry: "0 < ceil_div (t1 + w - t6) 1000 \<longleftrightarrow> t6 < t1 + w"
    by (simp add: ceil_div_pos)
  have last: "t6 = t1 + w \<longrightarrow> ceil_div (t1 + w - t6) 1000 = 0"
    by (simp add: ceil_div_def)
  obtain rs store' where run: "checkRateLimit_calls store key 5 w [t1, t2, t3, t4, t5, t6] = (rs, store')"
    by (cases "checkRateLimit_calls store key 5 w [t1, t2, t3, t4, t5, t6]")
  with six_calls [of store key t2 t1 w t3 t4 t5 t6] assms
  have rs: "rs = [\<lparr>allowed = True, remaining = 4, result_resetTime = t1 + w, retryAfter = 0\<rparr>,
      \<lparr>allowed = True, remaining = 3, result_resetTime = t1 + w, retryAfter = 0\<rparr>,
      \<lparr>allowed = True, remaining = 2, result_resetTime = t1 + w, retryAfter = 0\<rparr>,
      \<lparr>allowed = True, remaining = 1, result_resetTime = t1 + w, retryAfter = 0\<rparr>,
      \<lparr>allowed = True, remaining = 0, result_resetTime = t1 + w, retryAfter = 0\<rparr>,
      \<lparr>allowed = False, remaining = 0, result_resetTime = t1 + w, retryAfter = ceil_div (t1 + w - t6) 1000\<rparr>]"
    and store': "store' = store(key \<mapsto> \<lparr>attempts = 5, resetTime = t1 + w\<rparr>)"
    by simp_all
  have forgiven: "resetRateLimit store' key key = None"
    by (simp add: resetRateLimit_def)
  show ?thesis
    unfolding run prod.case using retry last by (simp add: rs check_fresh forgiven)
qed

text \<open>
  Six calls one second apart in a window of 60 seconds, and a sixth call at the last
  millisecond of the window instead: it is denied and told to retry after 0 seconds.
\<close>

theorem rate_limit_five_allowed_sixth_denied_witness:
  "(case checkRateLimit_calls Map.empty ''login:10.0.0.7'' 5 60000
           [1000, 2000, 3000, 4000, 5000, 61000] of
      (rs, store') \<Rightarrow>
        map allowed rs = [True, True, True, True, True, False]
      \<and> map remaining (take 5 rs) = [4, 3, 2, 1, 0]
      \<and> retryAfter (rs ! 5) = 0
      \<and> (case checkRateLimit (resetRateLimit store' ''login:10.0.0.7'') ''login:10.0.0.7'' 5 60000 62000 of
            (r, store'') \<Rightarrow> allowed r \<and> remaining r = 4))
   \<and> (case checkRateLimit_calls Map.empty ''login:10.0.0.7'' 5 60000
           [1000, 2000, 3000, 4000, 5000, 6000] of
      (rs, store') \<Rightarrow>
        map allowed rs = [True, True, True, True, True, False]
      \<and> retryAfter (rs ! 5) = 55)"
  using rate_limit_five_allowed_sixth_denied
    [of Map.empty "''login:10.0.0.7''" 2000 1000 60000 3000 4000 5000 61000 62000]
    rate_limit_five_allowed_sixth_denied
    [of Map.empty "''login:10.0.0.7''" 2000 1000 60000 3000 4000 5000 6000 62000]
  by (simp add: checkRateLimit_def resetRateLimit_def Let_def ceil_div_def)

subsection \<open>Password strength: the score as a sum\<close>

lemma fst_award: "fst (award t h st) = fst st + point t"
  by (simp add: award_def point_def)

lemma snd_award: "set (snd (award t h st)) = set (snd st) \<union> (if t then {} else set h)"
  by (simp add: award_def)

lemma fst_penalise: "fst (penalise t h st) = fst st - point t"
  by (simp add: penalise_def point_def)

lemma snd_penalise: "set (snd (penalise t h st)) = set (snd st) \<union> (if t then {h} else {})"
  by (simp add: penalise_def)

lemma startsWith_iff: "startsWith s w \<longleftrightarrow> (\<exists>after. s = w @ after)"
  unfolding startsWith_def
  by (metis append_eq_conv_conj append_take_drop_id)

lemma str_includes_iff: "str_includes s w \<longleftrightarrow> (\<exists>before after. s = before @ w @ after)"
proof (induction s)
  case Nil
  then show ?case by auto
next
  case (Cons c cs)
  show ?case
  proof
    assume "str_includes (c # cs) w"
    then consider "startsWith (c # cs) w" | "str_includes cs w" by auto
    then show "\<exists>before after. c # cs = before @ w @ after"
    proof cases
      case 1
      then obtain after where "c # cs = w @ after" by (auto simp: startsWith_iff)
      then have "c # cs = [] @ w @ after" by simp
      then show ?thesis by blast
    next
      case 2
      with Cons.IH obtain before after where "cs = before @ w @ after" by blast
      then have "c # cs = (c # before) @ w @ after" by simp
      then show ?thesis by blast
    qed
  next
    assume "\<exists>before after. c # cs = before @ w @ after"
    then obtain before after where eq: "c # cs = before @ w @ after" by blast
    show "str_includes (c # cs) w"
    proof (cases before)
      case Nil
      with eq have "startsWith (c # cs) w" by (auto simp: startsWith_iff)
      then show ?thesis by simp
    next
      case (Cons b bs)
      with eq have "cs = bs @ w @ after" by simp
      with Cons.IH have "str_includes cs w" by blast
      then show ?thesis by simp
    qed
  qed
qed

lemma map_eq_appendD:
  "map f xs = ys @ zs \<Longrightarrow> \<exists>as bs. xs = as @ bs \<and> map f as = ys \<and> map f bs = zs"
  by (auto simp: map_eq_append_conv)

lemma map_eq_sandwich:
  "map f p = before @ w @ after \<longleftrightarrow>
   (\<exists>b m a. p = b @ m @ a \<and> map f b = before \<and> map f m = w \<and> map f a = after)"
proof
  assume "map f p = before @ w @ after"
  from map_eq_appendD [OF this]
  obtain b r where p: "p = b @ r" and b: "map f b = before" and r: "map f r = w @ after"
    by blast
  from map_eq_appendD [OF r]
  obtain m a where "r = m @ a" "map f m = w" "map f a = after"
    by blast
  with p b show "\<exists>b m a. p = b @ m @ a \<and> map f b = before \<and> map f m = w \<and> map f a = after"
    by blast
next
  assume "\<exists>b m a. p = b @ m @ a \<and> map f b = before \<and> map f m = w \<and> map f a = after"
  then show "map f p = before @ w @ after" by auto
qed

lemma fold_case_literals:
  "map fold_case ''123'' = ''123''" "map fold_case ''abc'' = ''abc''" "map fold_case ''qwe'' = ''qwe''"
  by (simp_all add: fold_case_def is_upper_def code_unit_def)

lemma includes_folded:
  "map fold_case w = w \<Longrightarrow>
   str_includes (map fold_case p) w \<longleftrightarrow> contains_ignoring_case p w"
  unfolding str_includes_iff contains_ignoring_case_def map_eq_sandwich
  by simp

lemma common_sequences_iff:
  "common_sequences p \<longleftrightarrow>
   contains_ignoring_case p ''123'' \<or> contains_ignoring_case p ''abc''
   \<or> contains_ignoring_case p ''qwe''"
  unfolding common_sequences_def Let_def
  by (simp only: includes_folded fold_case_literals)

lemma identical_run_length: "identical_run p c \<Longrightarrow> 3 \<le> length p"
  unfolding identical_run_def by auto

lemma repeated_characters_iff:
  "repeated_characters p \<longleftrightarrow> (\<exists>c. dot_matches c \<and> identical_run p c)"
proof (induction p rule: repeated_characters.induct)
  case (1 a b c rest)
  have "(\<exists>x. dot_matches x \<and> identical_run (a # b # c # rest) x) \<longleftrightarrow>
        (dot_matches a \<and> a = b \<and> b = c) \<or> (\<exists>x. dot_matches x \<and> identical_run (b # c # rest) x)"
    (is "?L \<longleftrightarrow> ?H \<or> ?T")
  proof
    assume ?L
    then obtain x before after where x: "dot_matches x"
      and eq: "a # b # c # rest = before @ [x, x, x] @ after"
      by (auto simp: identical_run_def)
    show "?H \<or> ?T"
    proof (cases before)
      case Nil
      with eq x show ?thesis by simp
    next
      case (Cons y ys)
      with eq have "b # c # rest = ys @ [x, x, x] @ after" by simp
      with x show ?thesis unfolding identical_run_def by blast
    qed
  next
    assume "?H \<or> ?T"
    then show ?L
    proof
      assume ?H
      then have "a # b # c # rest = [] @ [a, a, a] @ rest" by simp
      with \<open>?H\<close> show ?L unfolding identical_run_def by blast
    next
      assume ?T
      then obtain x before after where x: "dot_matches x"
        and eq: "b # c # rest = before @ [x, x, x] @ after"
        by (auto simp: identical_run_def)
      then have "a # b # c # rest = (a # before) @ [x, x, x] @ after" by simp
      with x show ?L unfolding identical_run_def by blast
    qed
  qed
  with 1 show ?case by simp
qed (auto dest!: identical_run_length)

lemma hints_total:
  "fst (penalise t8 h8 (penalise t7 h7 (award t6 h6 (award t5 h5 (award t4 h4
        (award t3 h3 (award t2 h2 (award t1 h1 (0, []))))))))) =
   point t1 + point t2 + point t3 + point t4 + point t5 + point t6 - point t7 - point t8"
  by (simp add: fst_award fst_penalise)

lemma bucket_clamp:
  "bucket (max 0 t) = (if t \<le> 2 then ''weak'' else if t \<le> 4 then ''medium''
                       else if t \<le> 5 then ''strong'' else ''very-strong'')"
  by (simp add: bucket_def max_def)

lemma validate_nonempty:
  assumes "p \<noteq> []"
  shows "validatePasswordStrength (Some p) =
    (let st8 = penalise (common_sequences p) ''Avoid common sequences''
                (penalise (repeated_characters p) ''Avoid repeated characters''
                  (award (\<exists>c \<in> set p. c \<in> special_characters) [''Include special characters'']
                    (award (\<exists>c \<in> set p. is_digit c) [''Include numbers'']
                      (award (\<exists>c \<in> set p. is_upper c) [''Include uppercase letters'']
                        (award (\<exists>c \<in> set p. is_lower c) [''Include lowercase letters'']
                          (award (length p \<ge> 12) []
                            (award (length p \<ge> 8) [''Use at least 8 characters''] (0, []))))))))
     in \<lparr>score = max 0 (fst st8), strength = bucket (max 0 (fst st8)),
         feedback = (if snd st8 \<noteq> [] then snd st8 else [''Password strength is good''])\<rparr>)"
  using assms by (simp add: validatePasswordStrength_def Let_def bucket_clamp)

lemma feedback_set:
  "set (if hints \<noteq> [] then hints else [good]) = (if set hints = {} then {good} else set hints)"
  by simp

lemmas char_class_defs =
  is_lower_def is_upper_def is_digit_def code_unit_def special_characters_def
  line_terminator_def dot_matches_def fold_case_def startsWith_def

text \<open>
  What the function computes. For every non-empty password, \<open>validatePasswordStrength\<close>
  returns the sum clamped at 0: one point each for length at least 8, length at least 12,
  a character in a-z, one in A-Z, a digit and a character of the fixed punctuation set;
  one point off, with the feedback ``Avoid repeated characters'', for three identical
  characters in a row that the dot of the pattern matches; one point off, with the
  feedback ``Avoid common sequences'', for containing 123, abc or qwe in any letter case.
  The strength is weak up to 2, medium up to 4, strong up to 5 and very-strong above. An
  absent or empty password gives score 0, strength very-weak and the single feedback
  ``Password is required''.
\<close>

lemma validatePasswordStrength_sum:
  "validatePasswordStrength None = password_required
   \<and> validatePasswordStrength (Some []) = password_required
   \<and> (p \<noteq> [] \<longrightarrow>
        (let r = validatePasswordStrength (Some p)
         in score r = max 0 (additive_score p)
          \<and> strength r = bucket (score r)
          \<and> (''Avoid repeated characters'' \<in> set (feedback r)
                \<longleftrightarrow> (\<exists>c. dot_matches c \<and> identical_run p c))
          \<and> (''Avoid common sequences'' \<in> set (feedback r)
                \<longleftrightarrow> contains_ignoring_case p ''123'' \<or> contains_ignoring_case p ''abc''
                    \<or> contains_ignoring_case p ''qwe'')))"
proof (intro conjI impI)
  show "validatePasswordStrength None = password_required"
    by (simp add: validatePasswordStrength_def password_required_def)
  show "validatePasswordStrength (Some []) = password_required"
    by (simp add: validatePasswordStrength_def password_required_def)
next
  assume p: "p \<noteq> []"
  note v = validate_nonempty [OF p]
  have s: "score (validatePasswordStrength (Some p)) = max 0 (additive_score p)"
    unfolding v Let_def
    by (simp add: hints_total additive_score_def repeated_characters_iff common_sequences_iff)
  have b: "strength (validatePasswordStrength (Some p)) = bucket (score (validatePasswordStrength (Some p)))"
    unfolding v Let_def by simp
  have r: "''Avoid repeated characters'' \<in> set (feedback (validatePasswordStrength (Some p)))
           \<longleftrightarrow> (\<exists>c. dot_matches c \<and> identical_run p c)"
    unfolding v Let_def repeated_characters_iff [symmetric]
    by (simp add: feedback_set snd_award snd_penalise del: set_empty)
  have c: "''Avoid common sequences'' \<in> set (feedback (validatePasswordStrength (Some p)))
           \<longleftrightarrow> contains_ignoring_case p ''123'' \<or> contains_ignoring_case p ''abc''
                    \<or> contains_ignoring_case p ''qwe''"
    unfolding v Let_def common_sequences_iff [symmetric]
    by (simp add: feedback_set snd_award snd_penalise del: set_empty)
  from s b r c
  show "let r = validatePasswordStrength (Some p)
         in score r = max 0 (additive_score p)
          \<and> strength r = bucket (score r)
          \<and> (''Avoid repeated characters'' \<in> set (feedback r)
                \<longleftrightarrow> (\<exists>c. dot_matches c \<and> identical_run p c))
          \<and> (''Avoid common sequences'' \<in> set (feedback r)
                \<longleftrightarrow> contains_ignoring_case p ''123'' \<or> contains_ignoring_case p ''abc''
                    \<or> contains_ignoring_case p ''qwe'')"
    unfolding Let_def by blast
qed

text \<open>
  C7. The penalty for repeated characters is decided by the pattern \<^verbatim>\<open>/(.)\1{2,}/\<close>,
  whose dot matches no line terminator. The password \<open>xy1!\<close> followed by three line
  feeds has three identical characters in a row, yet the function takes nothing off: it
  returns score 3 and strength medium, without the feedback ``Avoid repeated
  characters''. The password \<open>xy1!aaa\<close>, which earns the same points, loses one for
  its run and gets score 2, strength weak and that feedback.
\<close>

theorem password_strength_line_feeds:
  "identical_run [CHR ''x'', CHR ''y'', CHR ''1'', CHR ''!'', CHR 0x0A, CHR 0x0A, CHR 0x0A]
      (CHR 0x0A)
   \<and> validatePasswordStrength
        (Some [CHR ''x'', CHR ''y'', CHR ''1'', CHR ''!'', CHR 0x0A, CHR 0x0A, CHR 0x0A]) =
      \<lparr>score = 3, strength = ''medium'',
        feedback = [''Use at least 8 characters'', ''Include uppercase letters'']\<rparr>
   \<and> validatePasswordStrength (Some ''xy1!aaa'') =
      \<lparr>score = 2, strength = ''weak'',
        feedback = [''Use at least 8 characters'', ''Include uppercase letters'',
                    ''Avoid repeated characters'']\<rparr>"
proof -
  let ?p = "[CHR ''x'', CHR ''y'', CHR ''1'', CHR ''!'', CHR 0x0A, CHR 0x0A, CHR 0x0A]"
  have "?p = ''xy1!'' @ [CHR 0x0A, CHR 0x0A, CHR 0x0A] @ []"
    by simp
  then have run: "identical_run ?p (CHR 0x0A)"
    unfolding identical_run_def by blast
  have feeds: "validatePasswordStrength (Some ?p) =
      \<lparr>score = 3, strength = ''medium'',
         feedback = [''Use at least 8 characters'', ''Include uppercase letters'']\<rparr>"
    by (simp add: validatePasswordStrength_def Let_def award_def penalise_def
          common_sequences_def char_class_defs)
  have letters: "validatePasswordStrength (Some ''xy1!aaa'') =
      \<lparr>score = 2, strength = ''weak'',
        feedback = [''Use at least 8 characters'', ''Include uppercase letters'',
                    ''Avoid repeated characters'']\<rparr>"
    by (simp add: validatePasswordStrength_def Let_def award_def penalise_def
          common_sequences_def char_class_defs)
  from run feeds letters show ?thesis by simp
qed

subsection \<open>Password strength: the two sample passwords\<close>

text \<open>
  C8. The password \<open>StrongP@ssw0rd123\<close> earns all six points and loses one for
  containing 123: the function returns score 5 and strength strong, not very-strong, and
  the route reports it acceptable. The password \<open>123\<close> gets score 0, strength weak,
  five feedback entries, and is reported not acceptable.
\<close>

theorem strength_of_sample_passwords:
  "validatePasswordStrength (Some ''StrongP@ssw0rd123'') =
     \<lparr>score = 5, strength = ''strong'', feedback = [''Avoid common sequences'']\<rparr>
   \<and> check_password_strength (Some ''StrongP@ssw0rd123'') =
     Inr \<lparr>reported_strength = ''strong'', reported_score = 5,
          reported_feedback = [''Avoid common sequences''], isAcceptable = True\<rparr>
   \<and> check_password_strength (Some ''123'') =
     Inr \<lparr>reported_strength = ''weak'', reported_score = 0,
          reported_feedback =
            [''Use at least 8 characters'', ''Include lowercase letters'',
             ''Include uppercase letters'', ''Include special characters'',
             ''Avoid common sequences''],
          isAcceptable = False\<rparr>"
  by (simp add: check_password_strength_def validatePasswordStrength_def Let_def award_def
        penalise_def common_sequences_def char_class_defs)

subsection \<open>Ownership gate\<close>

lemma radix_ten_digit: "radix_digit 10 c \<Longrightarrow> is_digit c"
  by (auto simp: radix_digit_def digit_value_def split: if_splits)

lemma takeWhile_none: "\<not> (\<exists>c \<in> set (take 1 s). P c) \<Longrightarrow> takeWhile P s = []"
  by (cases s) auto

lemma not_hex: "\<not> (\<exists>c \<in> set (take 1 s). is_digit c) \<Longrightarrow> take 2 s \<noteq> ''0x'' \<and> take 2 s \<noteq> ''0X''"
  by (cases s) (auto simp: is_digit_def code_unit_def)

lemma parseInt_non_numeric:
  assumes "non_numeric s"
  shows "parseInt (Some s) = None"
proof -
  define S1 where "S1 = (let S = dropWhile is_space s
                         in if take 1 S = ''+'' \<or> take 1 S = ''-'' then drop 1 S else S)"
  from assms have nd: "\<not> (\<exists>c \<in> set (take 1 S1). is_digit c)"
    by (simp add: non_numeric_def S1_def Let_def)
  then have "\<not> (\<exists>c \<in> set (take 1 S1). radix_digit 10 c)"
    using radix_ten_digit by blast
  then have Z: "takeWhile (radix_digit 10) S1 = []"
    by (rule takeWhile_none)
  from nd have hex: "take 2 S1 \<noteq> ''0x''" "take 2 S1 \<noteq> ''0X''"
    using not_hex by blast+
  have "parseInt (Some s) =
     (let hex = (take 2 S1 = ''0x'' \<or> take 2 S1 = ''0X'');
          R = (if hex then 16 else 10);
          S2 = (if hex then drop 2 S1 else S1);
          Z = takeWhile (radix_digit R) S2
      in if Z = [] then None
         else Some ((if take 1 (dropWhile is_space s) = ''-'' then - 1 else 1) * int (digits_value R Z)))"
    by (simp add: parseInt_def S1_def Let_def)
  with hex Z show ?thesis by (simp add: Let_def)
qed

text \<open>
  C10. \<open>requireOwnership\<close> answers 401 \<open>AUTH_TOKEN_MISSING\<close> when the request carries no
  user or no token. Otherwise it lets the request through exactly when \<open>parseInt\<close> of the
  path parameter (\<^verbatim>\<open>userId\<close>, else \<^verbatim>\<open>id\<close>) is the authenticated user's id, and answers
  403 \<open>AUTH_CREDENTIALS_INVALID\<close> in every other case; an absent or non-numeric parameter
  parses to \<^verbatim>\<open>NaN\<close> and therefore gets the 403. No response of the gate has status 400.
\<close>

theorem requireOwnership_never_bad_request:
  "(req_user req = None \<or> req_token req = None \<longrightarrow>
      requireOwnership req =
        Respond \<lparr>status = 401, code = ''AUTH_TOKEN_MISSING'', message = ''Authentication required''\<rparr>)
   \<and> (req_user req \<noteq> None \<and> req_token req \<noteq> None \<longrightarrow>
        requireOwnership req =
          (if parseInt (or_else (params_userId req) (params_id req))
                = Some (user_id (the (req_user req)))
           then Next req
           else Respond \<lparr>status = 403, code = ''AUTH_CREDENTIALS_INVALID'',
                  message = ''Access denied: insufficient permissions''\<rparr>))
   \<and> (req_user req \<noteq> None \<and> req_token req \<noteq> None
        \<and> (case or_else (params_userId req) (params_id req) of
              None \<Rightarrow> True | Some s \<Rightarrow> non_numeric s) \<longrightarrow>
        requireOwnership req =
          Respond \<lparr>status = 403, code = ''AUTH_CREDENTIALS_INVALID'',
            message = ''Access denied: insufficient permissions''\<rparr>)
   \<and> (\<forall>r. requireOwnership req = Respond r \<longrightarrow> status r \<noteq> 400)"
proof -
  have nan: "parseInt (or_else (params_userId req) (params_id req)) = None"
    if "case or_else (params_userId req) (params_id req) of None \<Rightarrow> True | Some s \<Rightarrow> non_numeric s"
    using that by (auto simp: parseInt_non_numeric split: option.splits) (simp add: parseInt_def)
  show ?thesis
    using nan
    by (auto simp: requireOwnership_def reject_def Let_def UNAUTHORIZED_def FORBIDDEN_def
          AUTH_TOKEN_MISSING_def AUTH_CREDENTIALS_INVALID_def)
qed

theorem requireOwnership_never_bad_request_witness:
  "requireOwnership blank_request =
     Respond \<lparr>status = 401, code = ''AUTH_TOKEN_MISSING'', message = ''Authentication required''\<rparr>
   \<and> requireOwnership (blank_request\<lparr>params_userId := Some ''abc'', req_user := Some sample_user,
                                         req_token := Some sample_info\<rparr>) =
     Respond \<lparr>status = 403, code = ''AUTH_CREDENTIALS_INVALID'',
       message = ''Access denied: insufficient permissions''\<rparr>"
  using requireOwnership_never_bad_request [of blank_request]
    requireOwnership_never_bad_request
      [of "blank_request\<lparr>params_userId := Some ''abc'', req_user := Some sample_user,
                          req_token := Some sample_info\<rparr>"]
  by (simp add: blank_request_def or_else_def non_numeric_def parseInt_def Let_def
        radix_digit_def digit_value_def char_class_defs is_space_def)

subsection \<open>Token codec: expiry and remaining time\<close>

lemmas sample_defs =
  sample_env_def sample_decode_def sample_encode_def sample_claims_def sample_reading_def
  default_issuer_def default_audience_def no_options_def spread_def
  verify_defaults_def sign_defaults_def

lemmas token_defs =
  verifyToken_def decodeToken_def jwt_verify_def jwt_decode_def three_segments_def
  strip_bearer_def unix_time_def startsWith_def is_space_def code_unit_def
  check_audience_def check_issuer_def jwt_error_def

text \<open>
  C5. The access token of the sample codec expires at second 2000. At that very second
  \<open>verifyToken\<close> refuses it as expired and \<open>getTokenRemainingTime\<close> is 0, but
  \<open>isTokenExpired\<close>, which compares with \<^verbatim>\<open>exp < currentTime\<close>, still answers false; it
  answers true one second later.
\<close>

theorem isTokenExpired_at_expiry_instant:
  "isTokenExpired sample_env ''hdr.auth.sig'' 2000000 = False
   \<and> isTokenExpired sample_env ''hdr.auth.sig'' 2001000 = True
   \<and> verifyToken sample_env ''hdr.auth.sig'' no_options 2000000 = Inl ''Token has expired''
   \<and> getTokenRemainingTime sample_env ''hdr.auth.sig'' 2000000 = Number 0"
  by (simp add: isTokenExpired_def getTokenRemainingTime_def token_defs sample_defs Let_def)

lemma decodeToken_not_decoded:
  "token = [] \<or> \<not> three_segments (strip_bearer token)
     \<or> (\<forall>j. jws_decode E (strip_bearer token) \<noteq> Decoded j) \<Longrightarrow>
   decodeToken E token = Inr None \<or> (\<exists>m. decodeToken E token = Inl m)"
  by (cases "jws_decode E (strip_bearer token)")
    (auto simp: decodeToken_def jwt_decode_def Let_def)

lemma decodeToken_decoded:
  "token \<noteq> [] \<Longrightarrow> three_segments (strip_bearer token) \<Longrightarrow>
   jws_decode E (strip_bearer token) = Decoded j \<Longrightarrow>
   decodeToken E token = Inr (Some j)"
  by (simp add: decodeToken_def jwt_decode_def)

text \<open>
  C6 (as amended). \<open>getTokenRemainingTime\<close> is 0 for the empty string, for a string that
  is not three dot-separated segments or does not decode, and for a token whose expiry
  time is absent (or null, false, 0 or the empty string). For a token that decodes and
  whose expiry time is a number \<open>e\<close> it is 0 when \<open>e\<close> has passed and \<open>e\<close> minus the
  current second otherwise, whatever key the token was signed with: the function decodes
  and does not verify. So for every string that does not decode to an expiry time other
  than a whole number of seconds, the result is a non-negative integer.
\<close>

theorem remaining_time_of_decoded_token:
  "(token = [] \<or> \<not> three_segments (strip_bearer token)
        \<or> (\<forall>j. jws_decode E (strip_bearer token) \<noteq> Decoded j) \<longrightarrow>
        getTokenRemainingTime E token now = Number 0)
   \<and> (token \<noteq> [] \<and> three_segments (strip_bearer token)
        \<and> jws_decode E (strip_bearer token) = Decoded j \<longrightarrow>
        (\<not> truthy (exp (payload j)) \<longrightarrow> getTokenRemainingTime E token now = Number 0)
        \<and> (\<forall>e. exp (payload j) = Num e \<longrightarrow>
              getTokenRemainingTime E token now =
                Number (if e = 0 \<or> e \<le> of_int (unix_time now) then 0
                        else e - of_int (unix_time now))))
   \<and> ((\<forall>j. jwt_decode E (strip_bearer token) = Decoded j \<longrightarrow>
          \<not> truthy (exp (payload j)) \<or> (\<exists>n. exp (payload j) = Num (of_int n))) \<longrightarrow>
        (\<exists>k. 0 \<le> k \<and> getTokenRemainingTime E token now = Number (of_int k)))"
proof (intro conjI impI allI)
  assume "token = [] \<or> \<not> three_segments (strip_bearer token)
        \<or> (\<forall>j. jws_decode E (strip_bearer token) \<noteq> Decoded j)"
  from decodeToken_not_decoded [OF this]
  show "getTokenRemainingTime E token now = Number 0"
    by (auto simp: getTokenRemainingTime_def)
next
  assume "token \<noteq> [] \<and> three_segments (strip_bearer token)
        \<and> jws_decode E (strip_bearer token) = Decoded j"
  then have d: "decodeToken E token = Inr (Some j)"
    by (simp add: decodeToken_decoded)
  {
    assume "\<not> truthy (exp (payload j))"
    with d show "getTokenRemainingTime E token now = Number 0"
      by (simp add: getTokenRemainingTime_def)
  next
    fix e assume "exp (payload j) = Num e"
    with d show "getTokenRemainingTime E token now =
                Number (if e = 0 \<or> e \<le> of_int (unix_time now) then 0
                        else e - of_int (unix_time now))"
      by (simp add: getTokenRemainingTime_def Let_def max_def)
  }
next
  assume whole: "\<forall>j. jwt_decode E (strip_bearer token) = Decoded j \<longrightarrow>
          \<not> truthy (exp (payload j)) \<or> (\<exists>n. exp (payload j) = Num (of_int n))"
  show "\<exists>k. 0 \<le> k \<and> getTokenRemainingTime E token now = Number (of_int k)"
  proof (cases "token \<noteq> [] \<and> (\<exists>j. jwt_decode E (strip_bearer token) = Decoded j)")
    case False
    then have "decodeToken E token = Inr None \<or> (\<exists>m. decodeToken E token = Inl m)"
      by (cases "jwt_decode E (strip_bearer token)") (auto simp: decodeToken_def Let_def)
    then have "getTokenRemainingTime E token now = Number (of_int 0)"
      by (auto simp: getTokenRemainingTime_def)
    then show ?thesis by blast
  next
    case True
    then obtain j where j: "jwt_decode E (strip_bearer token) = Decoded j" and ne: "token \<noteq> []"
      by blast
    then have d: "decodeToken E token = Inr (Some j)"
      by (simp add: decodeToken_def)
    from whole j
    consider "\<not> truthy (exp (payload j))" | n where "exp (payload j) = Num (of_int n)"
      by blast
    then show ?thesis
    proof cases
      case 1
      with d have "getTokenRemainingTime E token now = Number (of_int 0)"
        by (simp add: getTokenRemainingTime_def)
      then show ?thesis by blast
    next
      case 2
      with d have "getTokenRemainingTime E token now =
          Number (of_int (if n = 0 then 0 else max 0 (n - unix_time now)))"
        by (simp add: getTokenRemainingTime_def Let_def max_def)
      moreover have "0 \<le> (if n = 0 then 0 else max 0 (n - unix_time now))"
        by simp
      ultimately show ?thesis by blast
    qed
  qed
qed

theorem remaining_time_of_decoded_token_witness:
  "getTokenRemainingTime sample_env ''not-a-token'' 1500000 = Number 0
   \<and> getTokenRemainingTime sample_env ''hdr.auth.sig'' 1500000 = Number 500
   \<and> getTokenRemainingTime sample_env ''hdr.auth.sig'' 2500000 = Number 0"
  using remaining_time_of_decoded_token [of "''not-a-token''" sample_env 1500000]
    remaining_time_of_decoded_token
      [of "''hdr.auth.sig''" sample_env 1500000
          "\<lparr>payload = sample_claims ''auth'', signed_with = ''demo-jwt-secret-key''\<rparr>"]
    remaining_time_of_decoded_token
      [of "''hdr.auth.sig''" sample_env 2500000
          "\<lparr>payload = sample_claims ''auth'', signed_with = ''demo-jwt-secret-key''\<rparr>"]
  by (simp add: token_defs sample_defs)

text \<open>
  The claim as stated has the function return 0 for every token that fails verification,
  and an integer for every input. The sample token signed with another key fails
  verification at second 1500 (``Invalid token''), and its remaining time is reported as
  500. The remaining time of the token expiring at second 2000.5 is 500.5, and that of the
  token whose \<^verbatim>\<open>exp\<close> is the string \<^verbatim>\<open>abc\<close> is \<^verbatim>\<open>NaN\<close>.
\<close>

theorem remaining_time_forged_counterexample:
  "verifyToken sample_env ''hdr.auth.forged'' no_options 1500000 = Inl ''Invalid token''
   \<and> getTokenRemainingTime sample_env ''hdr.auth.forged'' 1500000 = Number 500
   \<and> getTokenRemainingTime sample_env ''hdr.half.sig'' 1500000 = Number (1001 / 2)
   \<and> getTokenRemainingTime sample_env ''hdr.text.sig'' 1500000 = NaN"
  by (simp add: getTokenRemainingTime_def token_defs sample_defs Let_def)

subsection \<open>Authentication middleware\<close>

lemma jwt_verify_Inr:
  "jwt_verify E token secret options now = Inr c \<Longrightarrow>
   three_segments token
   \<and> (\<exists>j. jws_decode E token = Decoded j \<and> payload j = c \<and> signed_with j = secret)"
  by (auto simp: jwt_verify_def Let_def split: if_splits decode_result.splits option.splits)

lemma verifyToken_plain:
  "token \<noteq> [] \<Longrightarrow>
   verifyToken E token no_options now =
     (case jwt_verify E (strip_bearer token) (jwt_secret E) verify_defaults now of
        Inr c \<Rightarrow> Inr c
      | Inl e \<Rightarrow>
          if err_name e = ''TokenExpiredError'' then Inl ''Token has expired''
          else if err_name e = ''JsonWebTokenError'' then Inl ''Invalid token''
          else if err_name e = ''NotBeforeError'' then Inl ''Token not active yet''
          else Inl (''Token verification failed: '' @ err_message e))"
  by (simp add: verifyToken_def Let_def spread_def no_options_def verify_defaults_def
        split: sum.splits)

lemma verifyToken_empty: "verifyToken E [] options now = Inl ''Token must be a valid string''"
  by (simp add: verifyToken_def)

lemma verifyToken_Inr:
  assumes "verifyToken E token no_options now = Inr c"
  shows "token \<noteq> [] \<and> three_segments (strip_bearer token)
         \<and> carried_type E token = Some (token_type c)"
proof -
  from assms have ne: "token \<noteq> []"
    by (auto simp: verifyToken_empty)
  with assms have "jwt_verify E (strip_bearer token) (jwt_secret E) verify_defaults now = Inr c"
    by (auto simp: verifyToken_plain split: sum.splits if_splits)
  from jwt_verify_Inr [OF this] ne show ?thesis
    by (auto simp: carried_type_def jwt_decode_def)
qed

lemma expired_mentions: "str_includes ''Token has expired'' ''expired''"
  by (simp add: startsWith_def)

lemma others_do_not_mention:
  "\<not> str_includes ''Invalid token'' ''expired''"
  "\<not> str_includes ''Token not active yet'' ''expired''"
  by (simp_all add: startsWith_def)

lemmas gate_defs =
  reject_def UNAUTHORIZED_def BAD_REQUEST_def INTERNAL_SERVER_ERROR_def AUTH_TOKEN_MISSING_def
  AUTH_TOKEN_INVALID_def AUTH_TOKEN_EXPIRED_def USER_NOT_FOUND_def INTERNAL_ERROR_def

lemma authenticateToken_verified:
  assumes "authorization req = Some authHeader"
    and "verifyToken E (extract_token authHeader) no_options now = Inr c"
  shows "authenticateToken E db req now =
     (if token_type c \<noteq> Str ''auth'' then
        reject UNAUTHORIZED AUTH_TOKEN_INVALID ''Invalid token type''
      else
        (case findById db (userId c) of
           Inl failure \<Rightarrow> reject INTERNAL_SERVER_ERROR INTERNAL_ERROR ''Authentication failed''
         | Inr None \<Rightarrow> reject UNAUTHORIZED USER_NOT_FOUND ''User not found''
         | Inr (Some user) \<Rightarrow>
             Next (req\<lparr>req_user := Some user,
                        req_token := Some \<lparr>info_raw = extract_token authHeader, info_decoded = c,
                          info_userId = userId c, info_email = email c,
                          info_iat = iat c, info_exp = exp c\<rparr>\<rparr>)))"
proof -
  from verifyToken_Inr [OF assms(2)]
  have t: "extract_token authHeader \<noteq> []" and f: "isValidTokenFormat (extract_token authHeader)"
    by (auto simp: isValidTokenFormat_def)
  from t have h: "authHeader \<noteq> []"
    by (auto simp: extract_token_def startsWith_def)
  show ?thesis
    using assms t f h by (simp add: authenticateToken_def Let_def)
qed

lemma authenticateToken_unverified:
  assumes "authorization req = Some authHeader"
    and "extract_token authHeader \<noteq> []"
    and "isValidTokenFormat (extract_token authHeader)"
    and "verifyToken E (extract_token authHeader) no_options now = Inl m"
  shows "authenticateToken E db req now =
     Respond \<lparr>status = 401,
       code = (if str_includes m ''expired'' then ''AUTH_TOKEN_EXPIRED''
               else ''AUTH_TOKEN_INVALID''),
       message = m\<rparr>"
proof -
  from assms(2) have h: "authHeader \<noteq> []"
    by (auto simp: extract_token_def startsWith_def)
  with assms show ?thesis
    by (simp add: authenticateToken_def Let_def gate_defs del: str_includes.simps)
qed

lemma authenticateToken_no_token:
  "authorization req = None \<or> authorization req = Some [] \<Longrightarrow>
   authenticateToken E db req now =
     reject UNAUTHORIZED AUTH_TOKEN_MISSING ''Authorization header is required''"
  by (auto simp: authenticateToken_def)


lemma findById_cases:
  "findById db v =
     (if \<not> truthy v then Inr None
      else if \<not> reachable db then Inl ConnectionFailure
      else
        (case integer_parameter (integer_input db) v of
           None \<Rightarrow> Inl InvalidTextRepresentation
         | Some i \<Rightarrow>
             if \<not> int4 i then Inl NumericValueOutOfRange
             else (case filter (\<lambda>row. user_id row = i) (users db) of
                     [] \<Rightarrow> Inr None
                   | row # rows \<Rightarrow> Inr (Some row))))"
  by (simp add: findById_def select_by_id_def split: option.splits)

lemma findById_none:
  "findById db v = Inr None \<longleftrightarrow>
     \<not> truthy v
     \<or> (reachable db
        \<and> (\<exists>i. integer_parameter (integer_input db) v = Some i \<and> int4 i
               \<and> (\<forall>row \<in> set (users db). user_id row \<noteq> i)))"
proof -
  have empty: "filter (\<lambda>row. user_id row = i) (users db) = [] \<longleftrightarrow>
        (\<forall>row \<in> set (users db). user_id row \<noteq> i)" for i
    by (simp add: filter_empty_conv)
  show ?thesis
    unfolding findById_cases
    by (auto simp: empty [symmetric] split: option.splits list.splits)
qed

lemma findById_failure:
  "(\<exists>failure. findById db v = Inl failure) \<longleftrightarrow>
     truthy v
     \<and> (\<not> reachable db
        \<or> (\<forall>i. integer_parameter (integer_input db) v = Some i \<longrightarrow> \<not> int4 i))"
  unfolding findById_cases
  by (auto split: option.splits list.splits)

lemma findById_some:
  assumes "findById db v = Inr (Some u)"
  shows "u \<in> set (users db) \<and> integer_parameter (integer_input db) v = Some (user_id u)"
proof -
  from assms obtain i rows where i: "integer_parameter (integer_input db) v = Some i"
    and f: "filter (\<lambda>row. user_id row = i) (users db) = u # rows"
    unfolding findById_cases
    by (auto split: option.splits list.splits if_splits)
  from f have "u \<in> set (filter (\<lambda>row. user_id row = i) (users db))"
    by simp
  with i show ?thesis by simp
qed

lemma verify_expired:
  assumes "three_segments t" and "jws_decode E t = Decoded j" and "signed_with j = secret"
    and "nbf (payload j) = Undefined" and "exp (payload j) = Num e"
    and "e \<le> of_int (unix_time now)"
  shows "jwt_verify E t secret options now =
         Inl \<lparr>err_name = ''TokenExpiredError'', err_message = ''jwt expired''\<rparr>"
proof -
  from assms(1) have "t \<noteq> []"
    by (auto simp: three_segments_def)
  with assms show ?thesis
    by (simp add: jwt_verify_def Let_def)
qed

lemmas evaluation_defs =
  authenticateToken_def validateRefreshToken_def refreshAccessToken_def extract_token_def
  isValidTokenFormat_def findById_def select_by_id_def int4_def generateAuthToken_def
  generateToken_def jwt_sign_def lacks_id_or_email_def auth_payload_def plain_error_def
  blank_request_def empty_database_def sample_user_def token_defs sample_defs gate_defs

text \<open>
  C4 (as amended). \<open>authenticateToken\<close> decides in this order, each rejection ending
  the gate: (1) no \<^verbatim>\<open>Authorization\<close> header (absent or empty): 401
  \<open>AUTH_TOKEN_MISSING\<close>; (2) the prefix \<^verbatim>\<open>Bearer \<close> is stripped, and a header that leaves
  no token at all: 401 \<open>AUTH_TOKEN_MISSING\<close>; (3) a token that is not three dot-separated
  segments: 401 \<open>AUTH_TOKEN_INVALID\<close>, whatever the codec and the secret are, so before
  any verification; (4) verification fails: 401 \<open>AUTH_TOKEN_EXPIRED\<close> for the package's
  expiry error, which an expired token gets, 401 \<open>AUTH_TOKEN_INVALID\<close> for its other two
  errors (a bad token, signature, issuer or audience; a token not yet active), and for
  an error thrown while the token is decoded 401 with the code chosen by whether the
  message mentions ``expired''; (5) the verified token is not of type auth: 401
  \<open>AUTH_TOKEN_INVALID\<close>; (6) the lookup of the user fails: 500 \<open>INTERNAL_ERROR\<close>, and no
  user has the token's \<open>userId\<close>: 401 \<open>USER_NOT_FOUND\<close>; (7) otherwise the user and the
  token's data are attached to the request and the request goes on. The lookup fails
  when the database is unreachable or the \<open>userId\<close> is not a 32-bit integer; it finds no
  user when the \<open>userId\<close> is absent, null, false, 0 or the empty string, or is a 32-bit
  integer that is the id of no user.
\<close>

theorem authenticateToken_decision_sequence:
  "(authorization req = None \<or> authorization req = Some [] \<longrightarrow>
      authenticateToken E db req now =
        Respond \<lparr>status = 401, code = ''AUTH_TOKEN_MISSING'',
          message = ''Authorization header is required''\<rparr>)
   \<and> extract_token (''Bearer '' @ t) = t
   \<and> (authorization req = Some authHeader \<and> authHeader \<noteq> [] \<longrightarrow>
        authenticateToken E db req now =
          (let token = extract_token authHeader in
           if token = [] then
             Respond \<lparr>status = 401, code = ''AUTH_TOKEN_MISSING'', message = ''Token is required''\<rparr>
           else if \<not> three_segments (strip_bearer token) then
             Respond \<lparr>status = 401, code = ''AUTH_TOKEN_INVALID'',
               message = ''Invalid token format''\<rparr>
           else
             (case jwt_verify E (strip_bearer token) (jwt_secret E) verify_defaults now of
                Inl e \<Rightarrow>
                  if err_name e = ''TokenExpiredError'' then
                    Respond \<lparr>status = 401, code = ''AUTH_TOKEN_EXPIRED'',
                      message = ''Token has expired''\<rparr>
                  else if err_name e = ''JsonWebTokenError'' then
                    Respond \<lparr>status = 401, code = ''AUTH_TOKEN_INVALID'',
                      message = ''Invalid token''\<rparr>
                  else if err_name e = ''NotBeforeError'' then
                    Respond \<lparr>status = 401, code = ''AUTH_TOKEN_INVALID'',
                      message = ''Token not active yet''\<rparr>
                  else
                    Respond \<lparr>status = 401,
                      code = (if str_includes (''Token verification failed: '' @ err_message e)
                                   ''expired''
                              then ''AUTH_TOKEN_EXPIRED'' else ''AUTH_TOKEN_INVALID''),
                      message = ''Token verification failed: '' @ err_message e\<rparr>
              | Inr c \<Rightarrow>
                  if token_type c \<noteq> Str ''auth'' then
                    Respond \<lparr>status = 401, code = ''AUTH_TOKEN_INVALID'',
                      message = ''Invalid token type''\<rparr>
                  else
                    (case findById db (userId c) of
                       Inl failure \<Rightarrow>
                         Respond \<lparr>status = 500, code = ''INTERNAL_ERROR'',
                           message = ''Authentication failed''\<rparr>
                     | Inr None \<Rightarrow>
                         Respond \<lparr>status = 401, code = ''USER_NOT_FOUND'',
                           message = ''User not found''\<rparr>
                     | Inr (Some user) \<Rightarrow>
                         Next (req\<lparr>req_user := Some user,
                                    req_token := Some \<lparr>info_raw = token, info_decoded = c,
                                      info_userId = userId c, info_email = email c,
                                      info_iat = iat c, info_exp = exp c\<rparr>\<rparr>)))))
   \<and> (three_segments t \<and> jws_decode E t = Decoded j \<and> signed_with j = jwt_secret E
        \<and> nbf (payload j) = Undefined \<and> exp (payload j) = Num e
        \<and> e \<le> of_int (unix_time now) \<longrightarrow>
        jwt_verify E t (jwt_secret E) verify_defaults now =
          Inl \<lparr>err_name = ''TokenExpiredError'', err_message = ''jwt expired''\<rparr>)
   \<and> ((\<exists>failure. findById db ident = Inl failure) \<longleftrightarrow>
        truthy ident
        \<and> (\<not> reachable db
           \<or> (\<forall>i. integer_parameter (integer_input db) ident = Some i \<longrightarrow> \<not> int4 i)))
   \<and> (findById db ident = Inr None \<longleftrightarrow>
        \<not> truthy ident
        \<or> (reachable db
           \<and> (\<exists>i. integer_parameter (integer_input db) ident = Some i \<and> int4 i
                  \<and> (\<forall>row \<in> set (users db). user_id row \<noteq> i))))
   \<and> (findById db ident = Inr (Some u) \<longrightarrow>
        u \<in> set (users db) \<and> integer_parameter (integer_input db) ident = Some (user_id u))"
proof (intro conjI)
  show "authorization req = None \<or> authorization req = Some [] \<longrightarrow>
      authenticateToken E db req now =
        Respond \<lparr>status = 401, code = ''AUTH_TOKEN_MISSING'',
          message = ''Authorization header is required''\<rparr>"
    by (auto simp: authenticateToken_no_token gate_defs)
next
  show "extract_token (''Bearer '' @ t) = t"
    by (simp add: extract_token_def startsWith_def)
next
  show "three_segments t \<and> jws_decode E t = Decoded j \<and> signed_with j = jwt_secret E
        \<and> nbf (payload j) = Undefined \<and> exp (payload j) = Num e
        \<and> e \<le> of_int (unix_time now) \<longrightarrow>
        jwt_verify E t (jwt_secret E) verify_defaults now =
          Inl \<lparr>err_name = ''TokenExpiredError'', err_message = ''jwt expired''\<rparr>"
    using verify_expired [of t E j "jwt_secret E" e now verify_defaults] by blast
next
  show "(\<exists>failure. findById db ident = Inl failure) \<longleftrightarrow>
        truthy ident
        \<and> (\<not> reachable db
           \<or> (\<forall>i. integer_parameter (integer_input db) ident = Some i \<longrightarrow> \<not> int4 i))"
    by (rule findById_failure)
next
  show "findById db ident = Inr None \<longleftrightarrow>
        \<not> truthy ident
        \<or> (reachable db
           \<and> (\<exists>i. integer_parameter (integer_input db) ident = Some i \<and> int4 i
                  \<and> (\<forall>row \<in> set (users db). user_id row \<noteq> i)))"
    by (rule findById_none)
next
  show "findById db ident = Inr (Some u) \<longrightarrow>
        u \<in> set (users db) \<and> integer_parameter (integer_input db) ident = Some (user_id u)"
    using findById_some [of db ident u] by blast
next
  show "authorization req = Some authHeader \<and> authHeader \<noteq> [] \<longrightarrow>
        authenticateToken E db req now =
          (let token = extract_token authHeader in
           if token = [] then
             Respond \<lparr>status = 401, code = ''AUTH_TOKEN_MISSING'', message = ''Token is required''\<rparr>
           else if \<not> three_segments (strip_bearer token) then
             Respond \<lparr>status = 401, code = ''AUTH_TOKEN_INVALID'',
               message = ''Invalid token format''\<rparr>
           else
             (case jwt_verify E (strip_bearer token) (jwt_secret E) verify_defaults now of
                Inl e \<Rightarrow>
                  if err_name e = ''TokenExpiredError'' then
                    Respond \<lparr>status = 401, code = ''AUTH_TOKEN_EXPIRED'',
                      message = ''Token has expired''\<rparr>
                  else if err_name e = ''JsonWebTokenError'' then
                    Respond \<lparr>status = 401, code = ''AUTH_TOKEN_INVALID'',
                      message = ''Invalid token''\<rparr>
                  else if err_name e = ''NotBeforeError'' then
                    Respond \<lparr>status = 401, code = ''AUTH_TOKEN_INVALID'',
                      message = ''Token not active yet''\<rparr>
                  else
                    Respond \<lparr>status = 401,
                      code = (if str_includes (''Token verification failed: '' @ err_message e)
                                   ''expired''
                              then ''AUTH_TOKEN_EXPIRED'' else ''AUTH_TOKEN_INVALID''),
                      message = ''Token verification failed: '' @ err_message e\<rparr>
              | Inr c \<Rightarrow>
                  if token_type c \<noteq> Str ''auth'' then
                    Respond \<lparr>status = 401, code = ''AUTH_TOKEN_INVALID'',
                      message = ''Invalid token type''\<rparr>
                  else
                    (case findById db (userId c) of
                       Inl failure \<Rightarrow>
                         Respond \<lparr>status = 500, code = ''INTERNAL_ERROR'',
                           message = ''Authentication failed''\<rparr>
                     | Inr None \<Rightarrow>
                         Respond \<lparr>status = 401, code = ''USER_NOT_FOUND'',
                           message = ''User not found''\<rparr>
                     | Inr (Some user) \<Rightarrow>
                         Next (req\<lparr>req_user := Some user,
                                    req_token := Some \<lparr>info_raw = token, info_decoded = c,
                                      info_userId = userId c, info_email = email c,
                                      info_iat = iat c, info_exp = exp c\<rparr>\<rparr>))))"
    (is "?h \<longrightarrow> ?goal")
  proof
    assume h: ?h
    let ?token = "extract_token authHeader"
    let ?v = "jwt_verify E (strip_bearer ?token) (jwt_secret E) verify_defaults now"
    consider (empty) "?token = []"
      | (shape) "?token \<noteq> []" "\<not> three_segments (strip_bearer ?token)"
      | (failed) e where "?token \<noteq> []" "three_segments (strip_bearer ?token)" "?v = Inl e"
      | (verified) c where "?token \<noteq> []" "three_segments (strip_bearer ?token)" "?v = Inr c"
      by (cases ?v) auto
    then show ?goal
    proof cases
      case empty
      with h show ?thesis
        by (simp add: authenticateToken_def gate_defs)
    next
      case shape
      with h show ?thesis
        by (simp add: authenticateToken_def isValidTokenFormat_def gate_defs)
    next
      case failed
      from failed have fmt: "isValidTokenFormat ?token"
        by (simp add: isValidTokenFormat_def)
      from failed have m: "verifyToken E ?token no_options now =
          (if err_name e = ''TokenExpiredError'' then Inl ''Token has expired''
           else if err_name e = ''JsonWebTokenError'' then Inl ''Invalid token''
           else if err_name e = ''NotBeforeError'' then Inl ''Token not active yet''
           else Inl (''Token verification failed: '' @ err_message e))"
        by (simp add: verifyToken_plain)
      show ?thesis
      proof (cases "err_name e = ''TokenExpiredError''")
        case True
        with m have "verifyToken E ?token no_options now = Inl ''Token has expired''" by simp
        from authenticateToken_unverified [OF _ failed(1) fmt this, of req db] h failed True
        show ?thesis by (simp add: expired_mentions del: str_includes.simps)
      next
        case False
        note ne = this
        show ?thesis
        proof (cases "err_name e = ''JsonWebTokenError''")
          case True
          with m ne have "verifyToken E ?token no_options now = Inl ''Invalid token''" by simp
          from authenticateToken_unverified [OF _ failed(1) fmt this, of req db] h failed True ne
          show ?thesis by (simp add: others_do_not_mention del: str_includes.simps)
        next
          case False
          note nj = this
          show ?thesis
          proof (cases "err_name e = ''NotBeforeError''")
            case True
            with m ne nj have "verifyToken E ?token no_options now = Inl ''Token not active yet''"
              by simp
            from authenticateToken_unverified [OF _ failed(1) fmt this, of req db]
              h failed True ne nj
            show ?thesis by (simp add: others_do_not_mention del: str_includes.simps)
          next
            case False
            with m ne nj have "verifyToken E ?token no_options now =
                Inl (''Token verification failed: '' @ err_message e)"
              by simp
            from authenticateToken_unverified [OF _ failed(1) fmt this, of req db]
              h failed False ne nj
            show ?thesis by (simp del: str_includes.simps)
          qed
        qed
      qed
    next
      case verified
      then have "verifyToken E ?token no_options now = Inr c"
        by (simp add: verifyToken_plain)
      from authenticateToken_verified [OF _ this, of req db] h verified
      show ?thesis
        by (simp add: gate_defs split: sum.splits option.splits)
    qed
  qed
qed

theorem authenticateToken_decision_sequence_witness:
  "authenticateToken sample_env (empty_database\<lparr>users := [sample_user]\<rparr>) blank_request 1500000 =
     Respond \<lparr>status = 401, code = ''AUTH_TOKEN_MISSING'',
       message = ''Authorization header is required''\<rparr>
   \<and> authenticateToken sample_env (empty_database\<lparr>users := [sample_user]\<rparr>)
         (blank_request\<lparr>authorization := Some ''Bearer hdr.auth.sig''\<rparr>) 1500000 =
     Next (blank_request\<lparr>authorization := Some ''Bearer hdr.auth.sig'',
             req_user := Some sample_user, req_token := Some sample_info\<rparr>)
   \<and> authenticateToken sample_env (empty_database\<lparr>users := [sample_user]\<rparr>)
         (blank_request\<lparr>authorization := Some ''Bearer hdr.auth.sig''\<rparr>) 2000000 =
     Respond \<lparr>status = 401, code = ''AUTH_TOKEN_EXPIRED'', message = ''Token has expired''\<rparr>
   \<and> authenticateToken sample_env (empty_database\<lparr>users := [sample_user]\<rparr>)
         (blank_request\<lparr>authorization := Some ''Bearer hdr.auth.forged''\<rparr>) 1500000 =
     Respond \<lparr>status = 401, code = ''AUTH_TOKEN_INVALID'', message = ''Invalid token''\<rparr>
   \<and> authenticateToken sample_env empty_database
         (blank_request\<lparr>authorization := Some ''Bearer hdr.auth.sig''\<rparr>) 1500000 =
     Respond \<lparr>status = 401, code = ''USER_NOT_FOUND'', message = ''User not found''\<rparr>
   \<and> authenticateToken sample_env (empty_database\<lparr>users := [sample_user], reachable := False\<rparr>)
         (blank_request\<lparr>authorization := Some ''Bearer hdr.auth.sig''\<rparr>) 1500000 =
     Respond \<lparr>status = 500, code = ''INTERNAL_ERROR'', message = ''Authentication failed''\<rparr>"
  using authenticateToken_decision_sequence
      [where req = blank_request and E = sample_env
         and db = "empty_database\<lparr>users := [sample_user]\<rparr>" and now = 1500000]
    authenticateToken_decision_sequence
      [where req = "blank_request\<lparr>authorization := Some ''Bearer hdr.auth.sig''\<rparr>"
         and E = sample_env and db = "empty_database\<lparr>users := [sample_user]\<rparr>"
         and now = 1500000 and authHeader = "''Bearer hdr.auth.sig''"]
    authenticateToken_decision_sequence
      [where req = "blank_request\<lparr>authorization := Some ''Bearer hdr.auth.sig''\<rparr>"
         and E = sample_env and db = "empty_database\<lparr>users := [sample_user]\<rparr>"
         and now = 2000000 and authHeader = "''Bearer hdr.auth.sig''"
         and t = "''hdr.auth.sig''" and e = 2000
         and j = "\<lparr>payload = sample_claims ''auth'', signed_with = ''demo-jwt-secret-key''\<rparr>"]
    authenticateToken_decision_sequence
      [where req = "blank_request\<lparr>authorization := Some ''Bearer hdr.auth.forged''\<rparr>"
         and E = sample_env and db = "empty_database\<lparr>users := [sample_user]\<rparr>"
         and now = 1500000 and authHeader = "''Bearer hdr.auth.forged''"]
    authenticateToken_decision_sequence
      [where req = "blank_request\<lparr>authorization := Some ''Bearer hdr.auth.sig''\<rparr>"
         and E = sample_env and db = empty_database
         and now = 1500000 and authHeader = "''Bearer hdr.auth.sig''" and ident = "Num 7"]
    authenticateToken_decision_sequence
      [where req = "blank_request\<lparr>authorization := Some ''Bearer hdr.auth.sig''\<rparr>"
         and E = sample_env
         and db = "empty_database\<lparr>users := [sample_user], reachable := False\<rparr>"
         and now = 1500000 and authHeader = "''Bearer hdr.auth.sig''" and ident = "Num 7"]
  by (simp add: evaluation_defs sample_info_def Let_def)

text \<open>
  The claim as stated has every verified token of an unknown user answered with
  \<open>USER_NOT_FOUND\<close> and every token that is not three segments with
  \<open>AUTH_TOKEN_INVALID\<close>. A verified refresh token of an unknown user is answered with
  \<open>AUTH_TOKEN_INVALID\<close> (the type check comes first); a verified access token whose
  \<open>userId\<close> is \<open>2^31\<close>, the id of no user, with 500 \<open>INTERNAL_ERROR\<close> (the lookup fails
  on a value outside the id column's type); and the header \<^verbatim>\<open>Bearer \<close>, whose token is
  empty, with \<open>AUTH_TOKEN_MISSING\<close>.
\<close>

theorem authenticateToken_refresh_token_counterexample:
  "verifyToken sample_env ''hdr.refresh.sig'' no_options 1500000 = Inr (sample_claims ''refresh'')
   \<and> findById empty_database (userId (sample_claims ''refresh'')) = Inr None
   \<and> authenticateToken sample_env empty_database
         (blank_request\<lparr>authorization := Some ''Bearer hdr.refresh.sig''\<rparr>) 1500000 =
       Respond \<lparr>status = 401, code = ''AUTH_TOKEN_INVALID'', message = ''Invalid token type''\<rparr>
   \<and> verifyToken sample_env ''hdr.big.sig'' no_options 1500000 =
       Inr ((sample_claims ''auth'')\<lparr>userId := Num 2147483648\<rparr>)
   \<and> authenticateToken sample_env (empty_database\<lparr>users := [sample_user]\<rparr>)
         (blank_request\<lparr>authorization := Some ''Bearer hdr.big.sig''\<rparr>) 1500000 =
       Respond \<lparr>status = 500, code = ''INTERNAL_ERROR'', message = ''Authentication failed''\<rparr>
   \<and> \<not> three_segments []
   \<and> authenticateToken sample_env empty_database
         (blank_request\<lparr>authorization := Some ''Bearer ''\<rparr>) 1500000 =
       Respond \<lparr>status = 401, code = ''AUTH_TOKEN_MISSING'', message = ''Token is required''\<rparr>"
  by (simp add: evaluation_defs Let_def)




subsection \<open>Token codec: issuing and verifying\<close>

lemma generateToken_issued:
  assumes "truthy uid" and "jwt_secret E \<noteq> []"
  shows "generateToken E (auth_payload uid mail kind) (no_options\<lparr>expiresIn := Some ttl\<rparr>) t0 =
         Inr (jws_encode E (issued E (auth_payload uid mail kind) ttl t0))"
  using assms
  by (simp add: generateToken_def jwt_sign_def sign_defaults_def spread_def no_options_def
        auth_payload_def issued_def Let_def)

lemma three_segments_nonempty: "three_segments token \<Longrightarrow> token \<noteq> []"
  by (auto simp: three_segments_def)

lemma verify_issued:
  assumes "faithful_on E (issued E (auth_payload uid mail kind) ttl t0)"
  shows "jwt_verify E (jws_encode E (issued E (auth_payload uid mail kind) ttl t0))
           (jwt_secret E) verify_defaults t1 =
         (if unix_time t0 + ttl \<le> unix_time t1
          then Inl \<lparr>err_name = ''TokenExpiredError'', err_message = ''jwt expired''\<rparr>
          else Inr (payload (issued E (auth_payload uid mail kind) ttl t0)))"
proof -
  let ?j = "issued E (auth_payload uid mail kind) ttl t0"
  from assms have d: "jws_decode E (jws_encode E ?j) = Decoded ?j"
    and s: "three_segments (jws_encode E ?j)"
    by (simp_all add: faithful_on_def)
  from s have ne: "jws_encode E ?j \<noteq> []"
    by (rule three_segments_nonempty)
  have fields: "signed_with ?j = jwt_secret E" "nbf (payload ?j) = Undefined"
    "exp (payload ?j) = Num (of_int (unix_time t0 + ttl))"
    "aud (payload ?j) = Str default_audience" "iss (payload ?j) = Str default_issuer"
    by (simp_all add: issued_def auth_payload_def)
  show ?thesis
    unfolding jwt_verify_def
    by (simp add: d s ne fields Let_def verify_defaults_def check_audience_def check_issuer_def)
qed

text \<open>
  C2. Let the payload hold a \<open>userId\<close> (any value that is not null, false, 0 or the
  empty string), an email and a type, let the secret be non-empty and the serialisation
  faithful on the token that is issued. Then \<open>generateToken\<close> with the lifetime \<open>ttl\<close>
  returns a token; \<open>verifyToken\<close> with the same secret returns claims with the same
  \<open>userId\<close>, email and type as long as fewer than \<open>ttl\<close> seconds have elapsed on the
  clock the codec reads (whole Unix seconds), and fails with ``Token has expired'' from
  then on.
\<close>

theorem issue_verify_round_trip:
  assumes "truthy uid" and "jwt_secret E \<noteq> []"
    and "faithful_on E (issued E (auth_payload uid mail kind) ttl t0)"
  shows "\<exists>token.
           generateToken E (auth_payload uid mail kind)
             (no_options\<lparr>expiresIn := Some ttl\<rparr>) t0 = Inr token
         \<and> (unix_time t1 < unix_time t0 + ttl \<longrightarrow>
              (\<exists>c. verifyToken E token no_options t1 = Inr c
                 \<and> userId c = uid \<and> email c = mail \<and> token_type c = Str kind))
         \<and> (unix_time t0 + ttl \<le> unix_time t1 \<longrightarrow>
              verifyToken E token no_options t1 = Inl ''Token has expired'')"
proof -
  let ?p = "auth_payload uid mail kind"
  let ?token = "jws_encode E (issued E ?p ttl t0)"
  have g: "generateToken E ?p (no_options\<lparr>expiresIn := Some ttl\<rparr>) t0 = Inr ?token"
    using assms(1,2) by (rule generateToken_issued)
  from assms(3) have ne: "?token \<noteq> []" and clean: "strip_bearer ?token = ?token"
    by (auto simp: faithful_on_def three_segments_nonempty)
  have v: "verifyToken E ?token no_options t1 =
      (if unix_time t0 + ttl \<le> unix_time t1 then Inl ''Token has expired''
       else Inr (payload (issued E ?p ttl t0)))"
    by (simp add: verifyToken_plain [OF ne] clean verify_issued [OF assms(3)])
  have same: "userId (payload (issued E ?p ttl t0)) = uid"
    "email (payload (issued E ?p ttl t0)) = mail"
    "token_type (payload (issued E ?p ttl t0)) = Str kind"
    by (simp_all add: issued_def auth_payload_def)
  from g v same show ?thesis
    by auto
qed

theorem issue_verify_round_trip_witness:
  "truthy (Num 7) \<and> jwt_secret sample_env \<noteq> []
   \<and> faithful_on sample_env
        (issued sample_env (auth_payload (Num 7) (Str ''ann@example.com'') ''auth'') 1000 1000000)
   \<and> generateToken sample_env (auth_payload (Num 7) (Str ''ann@example.com'') ''auth'')
        (no_options\<lparr>expiresIn := Some 1000\<rparr>) 1000000 = Inr ''hdr.auth.sig''
   \<and> verifyToken sample_env ''hdr.auth.sig'' no_options 1999999 = Inr (sample_claims ''auth'')
   \<and> verifyToken sample_env ''hdr.auth.sig'' no_options 2000000 = Inl ''Token has expired''"
  using issue_verify_round_trip
      [of "Num 7" sample_env "Str ''ann@example.com''" "''auth''" 1000 1000000 1999999]
    issue_verify_round_trip
      [of "Num 7" sample_env "Str ''ann@example.com''" "''auth''" 1000 1000000 2000000]
  by (simp add: evaluation_defs faithful_on_def issued_def Let_def)

subsection \<open>Credential store: one record per email\<close>

lemma code_unit_lower:
  "code_unit (toLowerCase_char c) =
     (if is_upper c \<or> (192 \<le> code_unit c \<and> code_unit c \<le> 222 \<and> code_unit c \<noteq> 215)
      then code_unit c + 32 else code_unit c)"
  by (simp add: toLowerCase_char_def code_unit_def is_upper_def)

lemma code_unit_eq_iff: "code_unit a = code_unit b \<longleftrightarrow> a = b"
  by (simp add: code_unit_def)

lemma lower_is_space: "is_space (toLowerCase_char c) = is_space c"
  by (auto simp: is_space_def code_unit_lower is_upper_def)

lemma lower_is_at: "toLowerCase_char c = CHR ''@'' \<longleftrightarrow> c = CHR ''@''"
proof -
  have "code_unit (toLowerCase_char c) = 64 \<longleftrightarrow> code_unit c = 64"
    by (auto simp: code_unit_lower is_upper_def)
  moreover have "code_unit (CHR ''@'') = 64"
    by (simp add: code_unit_def)
  ultimately show ?thesis
    by (metis code_unit_eq_iff)
qed

lemma lower_is_dot: "toLowerCase_char c = CHR ''.'' \<longleftrightarrow> c = CHR ''.''"
proof -
  have "code_unit (toLowerCase_char c) = 46 \<longleftrightarrow> code_unit c = 46"
    by (auto simp: code_unit_lower is_upper_def)
  moreover have "code_unit (CHR ''.'') = 46"
    by (simp add: code_unit_def)
  ultimately show ?thesis
    by (metis code_unit_eq_iff)
qed

lemma lower_plain: "plain (toLowerCase_char c) = plain c"
  by (simp add: plain_def lower_is_space lower_is_at)

lemma take1_lower: "take 1 (map toLowerCase_char s) = ''@'' \<longleftrightarrow> take 1 s = ''@''"
  by (cases s) (simp_all add: lower_is_at)

lemma dot_in_lower: "CHR ''.'' \<in> set (map toLowerCase_char s) \<longleftrightarrow> CHR ''.'' \<in> set s"
proof -
  have "CHR ''.'' \<in> toLowerCase_char ` set s \<longleftrightarrow> (\<exists>c \<in> set s. toLowerCase_char c = CHR ''.'')"
    unfolding image_iff by (simp only: eq_commute [of "CHR ''.''"])
  also have "\<dots> \<longleftrightarrow> (\<exists>c \<in> set s. c = CHR ''.'')"
    by (simp only: lower_is_dot)
  also have "\<dots> \<longleftrightarrow> CHR ''.'' \<in> set s"
    by auto
  finally show ?thesis by simp
qed

lemma isValidEmail_lower: "isValidEmail (toLowerCase e) = isValidEmail e"
proof -
  have tw: "takeWhile plain (map toLowerCase_char e) = map toLowerCase_char (takeWhile plain e)"
    by (simp add: takeWhile_map comp_def lower_plain)
  have dw: "dropWhile plain (map toLowerCase_char e) = map toLowerCase_char (dropWhile plain e)"
    by (simp add: dropWhile_map comp_def lower_plain)
  have la: "list_all plain (drop 1 (map toLowerCase_char r)) = list_all plain (drop 1 r)" for r
    by (simp add: drop_map list_all_iff lower_plain)
  have bl: "butlast (drop 2 (map toLowerCase_char r)) = map toLowerCase_char (butlast (drop 2 r))" for r
    by (simp add: drop_map map_butlast)
  show ?thesis
    unfolding isValidEmail_def toLowerCase_def Let_def tw dw la bl take1_lower dot_in_lower
    by simp
qed

lemma isValidEmail_no_space:
  assumes "isValidEmail e" and "c \<in> set e"
  shows "\<not> is_space c"
proof -
  let ?local = "takeWhile plain e" and ?rest = "dropWhile plain e"
  from assms(1) have at: "take 1 ?rest = ''@''" and dom: "list_all plain (drop 1 ?rest)"
    by (simp_all add: isValidEmail_def Let_def)
  from at obtain D where rest: "?rest = CHR ''@'' # D"
    by (cases ?rest) simp_all
  with dom have D: "\<forall>d \<in> set D. plain d"
    by (simp add: list_all_iff)
  have "e = ?local @ ?rest"
    by simp
  with rest have "e = ?local @ CHR ''@'' # D"
    by simp
  with assms(2) have "c \<in> set ?local \<or> c = CHR ''@'' \<or> c \<in> set D"
    by (metis Un_iff set_ConsD set_append)
  then show ?thesis
  proof (elim disjE)
    assume "c \<in> set ?local"
    then have "plain c" by (rule set_takeWhileD [THEN conjunct2])
    then show ?thesis by (simp add: plain_def)
  next
    assume "c = CHR ''@''"
    then show ?thesis by (simp add: is_space_def code_unit_def)
  next
    assume "c \<in> set D"
    with D have "plain c" by blast
    then show ?thesis by (simp add: plain_def)
  qed
qed

lemma create_unfold:
  assumes "e \<noteq> []" "password \<noteq> None" "password \<noteq> Some []" "isValidEmail e"
    "isValidPassword password" "reachable db"
  shows "create db (Some e) password now =
     (if toLowerCase e \<in> user_email ` set (users db) then
        (Inl (Invalid ''User with this email already exists''), db)
      else if length e > 255 then (Inl (Store ValueTooLong), db)
      else if e \<in> user_email ` set (users db) then
        (Inl (Store UniqueViolation), db\<lparr>serial := serial db + 1\<rparr>)
      else
        (Inr \<lparr>user_id = serial db + 1, user_email = e, passwordHash = None,
               createdAt = now, updatedAt = now\<rparr>,
         db\<lparr>users := users db @ [\<lparr>user_id = serial db + 1, user_email = e,
                                     passwordHash = Some (Bcrypt (the password)),
                                     createdAt = now, updatedAt = now\<rparr>],
            serial := serial db + 1\<rparr>))"
proof (cases "filter (\<lambda>row. user_email row = toLowerCase e) (users db)")
  case Nil
  then have "toLowerCase e \<notin> user_email ` set (users db)"
    by (auto simp: filter_empty_conv)
  moreover from Nil assms have "findByEmail db (Some e) = Inr None"
    by (simp add: findByEmail_def select_by_email_def)
  ultimately show ?thesis
    using assms by (simp add: create_def insert_user_def Let_def)
next
  case (Cons row rows)
  then have "row \<in> set (filter (\<lambda>row. user_email row = toLowerCase e) (users db))"
    by simp
  then have "row \<in> set (users db)" and "toLowerCase e = user_email row"
    by simp_all
  then have "toLowerCase e \<in> user_email ` set (users db)"
    by (rule rev_image_eqI)
  moreover from Cons assms have "findByEmail db (Some e) = Inr (Some row)"
    by (simp add: findByEmail_def select_by_email_def)
  ultimately show ?thesis
    using assms by (simp add: create_def)
qed

lemma create_needs:
  assumes "create db (Some e) password now = (Inr u, db')"
  shows "e \<noteq> [] \<and> password \<noteq> None \<and> password \<noteq> Some [] \<and> isValidEmail e
       \<and> isValidPassword password \<and> reachable db"
proof -
  from assms have basic: "e \<noteq> []" "password \<noteq> None" "password \<noteq> Some []"
    "isValidEmail e" "isValidPassword password"
    by (auto simp: create_def split: if_splits)
  have "reachable db"
  proof (rule ccontr)
    assume "\<not> reachable db"
    with basic have "create db (Some e) password now = (Inl (Store ConnectionFailure), db)"
      by (simp add: create_def findByEmail_def select_by_email_def)
    with assms show False by simp
  qed
  with basic show ?thesis by simp
qed

lemma create_success:
  assumes "create db (Some e) password now = (Inr u, db')"
  shows "toLowerCase e \<notin> user_email ` set (users db)
       \<and> e \<notin> user_email ` set (users db)
       \<and> u = \<lparr>user_id = serial db + 1, user_email = e, passwordHash = None,
                createdAt = now, updatedAt = now\<rparr>
       \<and> db' = db\<lparr>users := users db @ [\<lparr>user_id = serial db + 1, user_email = e,
                                     passwordHash = Some (Bcrypt (the password)),
                                     createdAt = now, updatedAt = now\<rparr>],
                   serial := serial db + 1\<rparr>"
proof -
  from create_needs [OF assms]
  have n: "e \<noteq> []" "password \<noteq> None" "password \<noteq> Some []" "isValidEmail e"
    "isValidPassword password" "reachable db"
    by simp_all
  note u = create_unfold [OF n, of now]
  show ?thesis
  proof (cases "toLowerCase e \<in> user_email ` set (users db)")
    case True
    with u assms show ?thesis by simp
  next
    case False
    note lower = this
    show ?thesis
    proof (cases "length e > 255")
      case True
      with u assms lower show ?thesis by simp
    next
      case False
      note short = this
      show ?thesis
      proof (cases "e \<in> user_email ` set (users db)")
        case True
        with u assms lower short show ?thesis by simp
      next
        case False
        with u assms lower short show ?thesis by auto
      qed
    qed
  qed
qed

lemma trim_plain: "\<forall>c \<in> set s. \<not> is_space c \<Longrightarrow> trim s = s"
proof -
  assume a: "\<forall>c \<in> set s. \<not> is_space c"
  then have "dropWhile is_space s = s"
    by (cases s) simp_all
  moreover from a have "dropWhile is_space (rev s) = rev s"
    by (cases "rev s") (simp, metis dropWhile.simps(2) list.set_intros(1) set_rev)
  ultimately show ?thesis
    by (simp add: trim_def)
qed

lemma create_failure_users:
  assumes "create db (Some e) password now = (Inl err, db')"
  shows "users db' = users db"
proof (cases "e \<noteq> [] \<and> password \<noteq> None \<and> password \<noteq> Some [] \<and> isValidEmail e
              \<and> isValidPassword password")
  case False
  with assms show ?thesis
    by (auto simp: create_def split: if_splits)
next
  case True
  note ok = this
  show ?thesis
  proof (cases "reachable db")
    case False
    with ok have "create db (Some e) password now = (Inl (Store ConnectionFailure), db)"
      by (simp add: create_def findByEmail_def select_by_email_def)
    with assms show ?thesis by simp
  next
    case True
    with ok have "create db (Some e) password now =
     (if toLowerCase e \<in> user_email ` set (users db) then
        (Inl (Invalid ''User with this email already exists''), db)
      else if length e > 255 then (Inl (Store ValueTooLong), db)
      else if e \<in> user_email ` set (users db) then
        (Inl (Store UniqueViolation), db\<lparr>serial := serial db + 1\<rparr>)
      else
        (Inr \<lparr>user_id = serial db + 1, user_email = e, passwordHash = None,
               createdAt = now, updatedAt = now\<rparr>,
         db\<lparr>users := users db @ [\<lparr>user_id = serial db + 1, user_email = e,
                                     passwordHash = Some (Bcrypt (the password)),
                                     createdAt = now, updatedAt = now\<rparr>],
            serial := serial db + 1\<rparr>))"
      by (intro create_unfold) simp_all
    with assms show ?thesis
      by (auto split: if_splits)
  qed
qed

lemma lower_case_store_create:
  assumes inv: "lower_case_store db" and low: "toLowerCase e = e"
  shows "lower_case_store (snd (create db (Some e) password now))"
proof (cases "create db (Some e) password now")
  case (Pair r db')
  show ?thesis
  proof (cases r)
    case (Inl err)
    with Pair have "users db' = users db"
      by (auto dest: create_failure_users)
    with inv Pair show ?thesis
      by (simp add: lower_case_store_def)
  next
    case (Inr u)
    with Pair have c: "create db (Some e) password now = (Inr u, db')" by simp
    from create_success [OF c]
    have absent: "toLowerCase e \<notin> user_email ` set (users db)"
      and db': "users db' = users db @ [\<lparr>user_id = serial db + 1, user_email = e,
                                     passwordHash = Some (Bcrypt (the password)),
                                     createdAt = now, updatedAt = now\<rparr>]"
      by simp_all
    from inv have same: "map (\<lambda>row. toLowerCase (user_email row)) (users db) = map user_email (users db)"
      by (simp add: lower_case_store_def)
    from inv have all: "\<forall>row \<in> set (users db). toLowerCase (user_email row) = user_email row"
      and d: "distinct (map (\<lambda>row. toLowerCase (user_email row)) (users db))"
      by (simp_all add: lower_case_store_def)
    from absent have "toLowerCase e \<notin> set (map user_email (users db))"
      by simp
    then have notin: "toLowerCase e \<notin> set (map (\<lambda>row. toLowerCase (user_email row)) (users db))"
      unfolding same .
    have "lower_case_store db'"
      unfolding lower_case_store_def db'
      using all d notin low by simp
    with Pair show ?thesis
      by simp
  qed
qed

lemmas store_defs =
  create_def findByEmail_def select_by_email_def insert_user_def isValidEmail_def
  isValidPassword_def plain_def toLowerCase_def toLowerCase_char_def trim_def
  empty_database_def is_space_def lower_case_store_def char_of_def bit_0

text \<open>
  C9 (as amended). A stored email is trimmed: \<open>create\<close> refuses an email with white space
  as an invalid format, so it never has any to trim. A lower-case email is stored as it
  is. When the emails handed to \<open>create\<close> are lower-case, as the registration route hands
  them, the store keeps to one record per normalised email. After a successful \<open>create\<close>
  with a lower-case email \<open>e\<close>, a second \<open>create\<close> with any string equal to \<open>e\<close> up to
  letter case fails with the already-exists error and leaves the store as it is; a string
  with white space around it fails with the invalid-format error.
\<close>

theorem create_lower_case_emails:
  "(create db (Some e) password now = (Inr u, db') \<longrightarrow> trim (user_email u) = user_email u)
   \<and> (toLowerCase e = e \<and> create db (Some e) password now = (Inr u, db') \<longrightarrow>
        user_email u = e)
   \<and> (lower_case_store db \<and> toLowerCase e = e \<longrightarrow>
        lower_case_store (snd (create db (Some e) password now)))
   \<and> (toLowerCase e = e \<and> create db (Some e) password now = (Inr u, db')
        \<and> toLowerCase e' = e \<and> isValidPassword password' \<longrightarrow>
        create db' (Some e') password' later =
          (Inl (Invalid ''User with this email already exists''), db'))
   \<and> ((\<exists>c \<in> set e'. is_space c) \<and> password' \<noteq> None \<and> password' \<noteq> Some [] \<longrightarrow>
        create db (Some e') password' now = (Inl (Invalid ''Invalid email format''), db))"
proof (intro conjI impI)
  assume c: "create db (Some e) password now = (Inr u, db')"
  from create_success [OF c] have "user_email u = e" by simp
  moreover from create_needs [OF c] have "\<forall>c \<in> set e. \<not> is_space c"
    by (auto dest: isValidEmail_no_space)
  ultimately show "trim (user_email u) = user_email u"
    by (simp add: trim_plain)
next
  assume "toLowerCase e = e \<and> create db (Some e) password now = (Inr u, db')"
  then have "create db (Some e) password now = (Inr u, db')" by simp
  from create_success [OF this] show "user_email u = e" by simp
next
  assume "lower_case_store db \<and> toLowerCase e = e"
  then show "lower_case_store (snd (create db (Some e) password now))"
    by (simp add: lower_case_store_create)
next
  assume a: "toLowerCase e = e \<and> create db (Some e) password now = (Inr u, db')
        \<and> toLowerCase e' = e \<and> isValidPassword password'"
  then have c: "create db (Some e) password now = (Inr u, db')" by simp
  note n = create_needs [OF c] and s = create_success [OF c]
  from s have db': "users db' = users db @ [\<lparr>user_id = serial db + 1, user_email = e,
                                     passwordHash = Some (Bcrypt (the password)),
                                     createdAt = now, updatedAt = now\<rparr>]"
    and r: "reachable db' = reachable db"
    by simp_all
  from db' have present: "toLowerCase e' \<in> user_email ` set (users db')"
    using a by (simp add: image_iff)
  from a n have e': "e' \<noteq> []"
    by (auto simp: toLowerCase_def)
  from a n have valid: "isValidEmail e'"
    using isValidEmail_lower [of e'] by simp
  from a have pw: "password' \<noteq> None" "password' \<noteq> Some []" "isValidPassword password'"
    by (auto simp: isValidPassword_def split: option.splits)
  from n r have "reachable db'" by simp
  from create_unfold [OF e' pw(1,2) valid pw(3) this, of later] present
  show "create db' (Some e') password' later =
          (Inl (Invalid ''User with this email already exists''), db')"
    by simp
next
  assume b: "(\<exists>c \<in> set e'. is_space c) \<and> password' \<noteq> None \<and> password' \<noteq> Some []"
  then have "\<not> isValidEmail e'"
    by (auto dest: isValidEmail_no_space)
  moreover from b have "e' \<noteq> []" by auto
  ultimately show "create db (Some e') password' now = (Inl (Invalid ''Invalid email format''), db)"
    using b by (simp add: create_def)
qed

theorem create_lower_case_emails_witness:
  "(case create empty_database (Some ''ann@example.com'') (Some ''secret1'') 100 of
      (first, db1) \<Rightarrow>
        first = Inr \<lparr>user_id = 1, user_email = ''ann@example.com'', passwordHash = None,
                     createdAt = 100, updatedAt = 100\<rparr>
        \<and> lower_case_store db1
        \<and> create db1 (Some ''Ann@Example.COM'') (Some ''secret2'') 200 =
            (Inl (Invalid ''User with this email already exists''), db1)
        \<and> create db1 (Some '' ann@example.com'') (Some ''secret2'') 200 =
            (Inl (Invalid ''Invalid email format''), db1))"
  using create_lower_case_emails
    [of empty_database "''ann@example.com''" "Some ''secret1''" 100
        "\<lparr>user_id = 1, user_email = ''ann@example.com'', passwordHash = None,
                     createdAt = 100, updatedAt = 100\<rparr>"
        "snd (create empty_database (Some ''ann@example.com'') (Some ''secret1'') 100)"
        "''Ann@Example.COM''" "Some ''secret2''" 200 ]
  by (simp add: store_defs char_class_defs Let_def)

text \<open>
  The claim as stated covers every email and has the second \<open>create\<close> fail with the
  already-exists error also for surrounding white space. After a \<open>create\<close> with
  \<open>Ann@Example.com\<close>, which is stored in that spelling, the same email with spaces around
  it is refused as an invalid format, and \<open>ann@example.com\<close> is accepted: the lookup is by
  the lower-cased email and finds no such row, and the table ends with two records whose
  normalised email is the same.
\<close>

theorem create_mixed_case_counterexample:
  "(case create empty_database (Some ''Ann@Example.com'') (Some ''secret1'') 100 of
      (first, db1) \<Rightarrow>
        first = Inr \<lparr>user_id = 1, user_email = ''Ann@Example.com'', passwordHash = None,
                     createdAt = 100, updatedAt = 100\<rparr>
        \<and> create db1 (Some '' Ann@Example.com '') (Some ''secret2'') 200 =
            (Inl (Invalid ''Invalid email format''), db1)
        \<and> (case create db1 (Some ''ann@example.com'') (Some ''secret2'') 200 of
              (second, db2) \<Rightarrow>
                second = Inr \<lparr>user_id = 2, user_email = ''ann@example.com'', passwordHash = None,
                              createdAt = 200, updatedAt = 200\<rparr>
                \<and> map user_email (users db2) = [''Ann@Example.com'', ''ann@example.com'']))
   \<and> toLowerCase (trim '' Ann@Example.com '') = ''ann@example.com''"
  by (simp add: store_defs char_class_defs Let_def)

end
